theory Spec2Isabelle
  imports Complex_Main "HOL-Library.Sublist"
begin

section \<open>JavaScript numbers\<close>

text \<open>
  A JavaScript number is an IEEE double: a finite value, which is a real number, plus or
  minus infinity, or NaN. The two zeros are one value here: they compare equal, both are
  falsy, and the source never divides by a variable. An arithmetic operation on finite
  values rounds its exact result to a double; the rounding, which also yields an infinity
  when the result is too large, is the parameter \<open>rd\<close> of the operations. Exact arithmetic
  is the rounding \<open>Fin\<close>.
\<close>

datatype jsnum = Fin real | PInf | NInf | NaN

type_synonym rounding = "real \<Rightarrow> jsnum"

text \<open>\<open>a <= b\<close> and \<open>a < b\<close>: every comparison with NaN is false.\<close>

fun jsLe :: "jsnum \<Rightarrow> jsnum \<Rightarrow> bool" where
  "jsLe (Fin a) (Fin b) = (a \<le> b)"
| "jsLe NaN y = False"
| "jsLe x NaN = False"
| "jsLe NInf y = True"
| "jsLe x PInf = True"
| "jsLe x y = False"

fun jsLt :: "jsnum \<Rightarrow> jsnum \<Rightarrow> bool" where
  "jsLt (Fin a) (Fin b) = (a < b)"
| "jsLt NaN y = False"
| "jsLt x NaN = False"
| "jsLt NInf NInf = False"
| "jsLt NInf y = True"
| "jsLt PInf y = False"
| "jsLt x PInf = True"
| "jsLt x y = False"

text \<open>\<open>a === b\<close> on numbers: NaN is equal to nothing.\<close>

fun jsEq :: "jsnum \<Rightarrow> jsnum \<Rightarrow> bool" where
  "jsEq NaN y = False"
| "jsEq x NaN = False"
| "jsEq x y = (x = y)"

text \<open>The truth value of a number: zero and NaN are falsy.\<close>

fun truthy :: "jsnum \<Rightarrow> bool" where
  "truthy (Fin a) = (a \<noteq> 0)"
| "truthy NaN = False"
| "truthy PInf = True"
| "truthy NInf = True"

fun jsAdd :: "rounding \<Rightarrow> jsnum \<Rightarrow> jsnum \<Rightarrow> jsnum" where
  "jsAdd rd (Fin a) (Fin b) = rd (a + b)"
| "jsAdd rd NaN y = NaN"
| "jsAdd rd x NaN = NaN"
| "jsAdd rd PInf NInf = NaN"
| "jsAdd rd NInf PInf = NaN"
| "jsAdd rd PInf y = PInf"
| "jsAdd rd x PInf = PInf"
| "jsAdd rd NInf y = NInf"
| "jsAdd rd x NInf = NInf"

fun jsNeg :: "jsnum \<Rightarrow> jsnum" where
  "jsNeg (Fin a) = Fin (- a)"
| "jsNeg PInf = NInf"
| "jsNeg NInf = PInf"
| "jsNeg NaN = NaN"

definition jsSub :: "rounding \<Rightarrow> jsnum \<Rightarrow> jsnum \<Rightarrow> jsnum" where
  "jsSub rd a b = jsAdd rd a (jsNeg b)"

text \<open>The product of an infinity and a finite value \<open>b\<close>: NaN for zero, else by the sign.\<close>

definition infTimes :: "jsnum \<Rightarrow> real \<Rightarrow> jsnum" where
  "infTimes s b = (if b = 0 then NaN else if b > 0 then s else jsNeg s)"

fun jsMul :: "rounding \<Rightarrow> jsnum \<Rightarrow> jsnum \<Rightarrow> jsnum" where
  "jsMul rd (Fin a) (Fin b) = rd (a * b)"
| "jsMul rd NaN y = NaN"
| "jsMul rd x NaN = NaN"
| "jsMul rd PInf (Fin b) = infTimes PInf b"
| "jsMul rd NInf (Fin b) = infTimes NInf b"
| "jsMul rd (Fin a) PInf = infTimes PInf a"
| "jsMul rd (Fin a) NInf = infTimes NInf a"
| "jsMul rd PInf PInf = PInf"
| "jsMul rd PInf NInf = NInf"
| "jsMul rd NInf PInf = NInf"
| "jsMul rd NInf NInf = PInf"

text \<open>
  The quotient. A zero divisor counts as plus zero; the only divisor in the source is the
  constant 100.
\<close>

fun jsDiv :: "rounding \<Rightarrow> jsnum \<Rightarrow> jsnum \<Rightarrow> jsnum" where
  "jsDiv rd (Fin a) (Fin b) =
     (if b \<noteq> 0 then rd (a / b) else if a = 0 then NaN else if a > 0 then PInf else NInf)"
| "jsDiv rd NaN y = NaN"
| "jsDiv rd x NaN = NaN"
| "jsDiv rd (Fin a) PInf = Fin 0"
| "jsDiv rd (Fin a) NInf = Fin 0"
| "jsDiv rd PInf (Fin b) = (if b \<ge> 0 then PInf else NInf)"
| "jsDiv rd NInf (Fin b) = (if b \<ge> 0 then NInf else PInf)"
| "jsDiv rd x y = NaN"

text \<open>
  \<open>Math.round\<close> rounds a finite value to the nearest integer, a half towards plus
  infinity; the result is exact.
\<close>

fun mathRound :: "jsnum \<Rightarrow> jsnum" where
  "mathRound (Fin x) = Fin (of_int \<lfloor>x + 1 / 2\<rfloor>)"
| "mathRound x = x"

section \<open>KOFFIN\_TargetRateFIx: weighted random target selection\<close>

text \<open>
  A battler of the target group is known to the plugin through two members only: the
  property \<open>tgr\<close>, which may be undefined (\<open>None\<close>), and the method \<open>index()\<close>.
\<close>

record target =
  tgr :: "jsnum option"
  index :: int

text \<open>
  The action of the AI manager (\<open>this.action()\<close>). \<open>setTarget\<close> belongs to the host engine:
  it stores the index it is given. The record is extensible, so every other member of the
  action is carried along unchanged.
\<close>

record action =
  targetIndex :: int

definition setTarget :: "int \<Rightarrow> 'a action_scheme \<Rightarrow> 'a action_scheme" where
  "setTarget i act = act\<lparr>targetIndex := i\<rparr>"

text \<open>
  \<open>target.tgr || 1.0\<close>: the right operand is taken when the left one is falsy, that is
  when it is undefined, zero or NaN.
\<close>

definition weightOf :: "target \<Rightarrow> jsnum" where
  "weightOf t = (case tgr t of None \<Rightarrow> Fin 1 | Some v \<Rightarrow> if truthy v then v else Fin 1)"

text \<open>
  The first loop (lines 18-23): it pushes one weight for each member of the group and adds
  it to \<open>totalWeight\<close>. The state of the loop is the pair \<open>(weights, totalWeight)\<close>.
\<close>

fun weightLoop ::
  "rounding \<Rightarrow> target list \<Rightarrow> jsnum list \<times> jsnum \<Rightarrow> jsnum list \<times> jsnum" where
  "weightLoop rd [] (weights, totalWeight) = (weights, totalWeight)"
| "weightLoop rd (t # ts) (weights, totalWeight) =
     weightLoop rd ts (weights @ [weightOf t], jsAdd rd totalWeight (weightOf t))"

text \<open>
  The second loop (lines 29-35), from index \<open>i\<close> with the running sum \<open>weightSum\<close>:
  \<open>Some i\<close> is the index at which the loop calls \<open>setTarget\<close> and returns, \<open>None\<close> says
  that the loop ran to its end.
\<close>

function selectLoop ::
  "rounding \<Rightarrow> nat \<Rightarrow> jsnum list \<Rightarrow> jsnum \<Rightarrow> nat \<Rightarrow> jsnum \<Rightarrow> nat option" where
  "selectLoop rd n weights randomValue i weightSum =
     (if i < n then
        (let weightSum' = jsAdd rd weightSum (weights ! i) in
         if jsLe randomValue weightSum' then Some i
         else selectLoop rd n weights randomValue (Suc i) weightSum')
      else None)"
  by pat_completeness auto
termination
  by (relation "measure (\<lambda>(rd, n, weights, randomValue, i, weightSum). n - i)") auto

declare selectLoop.simps [simp del]

text \<open>
  \<open>AIManager.setRandomTarget\<close>. The value returned by \<open>Math.random()\<close> is the parameter
  \<open>rnd\<close>; the result is the action after the call.
\<close>

definition setRandomTarget ::
  "rounding \<Rightarrow> target list \<Rightarrow> jsnum \<Rightarrow> 'a action_scheme \<Rightarrow> 'a action_scheme" where
  "setRandomTarget rd grp rnd act =
     (if length grp \<le> 0 then act
      else
        (let (weights, totalWeight) = weightLoop rd grp ([], Fin 0);
             randomValue = jsMul rd rnd totalWeight
         in case selectLoop rd (length grp) weights randomValue 0 (Fin 0) of
              Some i \<Rightarrow> setTarget (index (grp ! i)) act
            | None \<Rightarrow> setTarget (index (grp ! 0)) act))"

text \<open>The weights and the total weight that \<open>setRandomTarget\<close> computes for a group.\<close>

definition groupWeights :: "rounding \<Rightarrow> target list \<Rightarrow> jsnum list" where
  "groupWeights rd grp = fst (weightLoop rd grp ([], Fin 0))"

definition groupTotalWeight :: "rounding \<Rightarrow> target list \<Rightarrow> jsnum" where
  "groupTotalWeight rd grp = snd (weightLoop rd grp ([], Fin 0))"

subsection \<open>Weighted selection as the specification words it\<close>

text \<open>
  The cumulative weight of the first \<open>k\<close> weights of a list, added up in list order from
  zero.
\<close>

definition cumulative :: "rounding \<Rightarrow> jsnum list \<Rightarrow> nat \<Rightarrow> jsnum" where
  "cumulative rd ws k = foldl (jsAdd rd) (Fin 0) (take k ws)"

text \<open>The cumulative weight of the members \<open>0..k\<close> of a group.\<close>

definition cumulativeWeight :: "rounding \<Rightarrow> target list \<Rightarrow> nat \<Rightarrow> jsnum" where
  "cumulativeWeight rd grp k = cumulative rd (map weightOf grp) (Suc k)"

text \<open>
  The position chosen for a list of weights and a value \<open>rnd\<close> of \<open>Math.random()\<close>: draw
  \<open>rnd\<close> times the total weight, walk the list accumulating weight and pick the first
  position whose cumulative weight is greater than or equal to the draw; fall back to the
  first position when there is none.
\<close>

definition weightedChoice :: "rounding \<Rightarrow> jsnum list \<Rightarrow> jsnum \<Rightarrow> nat" where
  "weightedChoice rd ws rnd =
     (let r = jsMul rd rnd (cumulative rd ws (length ws))
      in case List.find (\<lambda>k. jsLe r (cumulative rd ws (Suc k))) [0..<length ws] of
           Some k \<Rightarrow> k
         | None \<Rightarrow> 0)"

text \<open>
  Example roundings: exact arithmetic is \<open>Fin\<close>; \<open>roundToInt\<close> rounds every result to the
  nearest integer.
\<close>

definition roundToInt :: rounding where
  "roundToInt x = Fin (of_int \<lfloor>x + 1 / 2\<rfloor>)"

section \<open>KOFFIN\_InBattleStatus: the actor info window\<close>

subsection \<open>Data of the host engine\<close>

text \<open>
  The plugin reads the database and the battlers of the host engine. A number read from
  the engine is a JavaScript number; a position or a size on the bitmap is a real, all of
  them being computed from integer constants and the width of the window. A string is
  the list of the bytes of its well-formed UTF-8 encoding, a member that may be null or
  undefined is an option. The identifier of a state is only handed back to the engine,
  and the \<open>dataId\<close> of a trait is a natural number, as it is in the database.
  The note of a state is a string, as it is in the database of the engine; the members
  \<open>code\<close>, \<open>value\<close>, \<open>id\<close>, \<open>name\<close> and \<open>note\<close> carry the name of their object as a
  prefix.
\<close>

record trait =
  trait_code :: int
  dataId :: nat
  trait_value :: jsnum

record state =
  state_id :: int
  state_name :: string
  state_note :: string
  iconIndex :: jsnum
  traits :: "trait list"
  speed :: jsnum
  autoRemovalTiming :: jsnum
  removeByDamage :: bool

record equip =
  equip_name :: string

text \<open>
  An actor: \<open>name()\<close>, \<open>equips()\<close>, \<open>states()\<close> and the other methods are members holding
  what the call returns.
\<close>

record actor =
  actor_name :: string
  equips :: "equip option list"
  level :: jsnum
  atk :: jsnum
  def :: jsnum
  agi :: jsnum
  luk :: jsnum
  hit :: jsnum
  eva :: jsnum
  paramBase :: "nat \<Rightarrow> jsnum"
  paramPlus :: "nat \<Rightarrow> jsnum"
  states :: "state option list option"
  isStateAffected :: "int \<Rightarrow> bool"
  stateTurns :: "int \<Rightarrow> jsnum option"

text \<open>
  What the plugin takes from the JavaScript runtime and from the engine without defining
  it: the width of a text in the font of the bitmap (font size, bold, text), the
  conversion of a number to a string, the rounding of an exact result to a double, the
  standard font size of a window and the three trait codes of \<open>Game_BattlerBase\<close>.
\<close>

record host =
  measureTextWidth :: "real \<Rightarrow> bool \<Rightarrow> string \<Rightarrow> real"
  numToStr :: "jsnum \<Rightarrow> string"
  toDouble :: rounding
  standardFontSize :: real
  TRAIT_PARAM :: int
  TRAIT_XPARAM :: int
  TRAIT_SPARAM :: int

text \<open>
  The bitmap \<open>this.contents\<close>: its font settings and what has been drawn into it, in the
  order of drawing. A text is recorded with the font size, the bold flag and the colour
  that were set when it was drawn, then the text, \<open>x\<close>, \<open>y\<close>, the maximal width and the
  line height. A colour is the number \<open>n\<close> of \<open>this.textColor(n)\<close>.
\<close>

datatype drawOp =
    DrawText real bool nat string real real real real
  | DrawIcon jsnum real real

record bitmap =
  fontSize :: real
  fontBold :: bool
  textColor :: nat
  drawn :: "drawOp list"

text \<open>
  The window, with the members that the drawing methods read or write: \<open>_actor\<close>,
  \<open>_stateColumns\<close>, \<open>_lastStateCount\<close>, \<open>width\<close> and \<open>contents\<close>.
\<close>

record window =
  actor :: "actor option"
  stateColumns :: nat
  lastStateCount :: int
  width :: real
  contents :: bitmap

datatype error = TypeError

subsection \<open>Operations of the host on the window\<close>

definition clear :: "window \<Rightarrow> window" where
  "clear w = w\<lparr>contents := (contents w)\<lparr>drawn := []\<rparr>\<rparr>"

definition drawText :: "string \<Rightarrow> real \<Rightarrow> real \<Rightarrow> real \<Rightarrow> real \<Rightarrow> window \<Rightarrow> window" where
  "drawText txt x y maxWidth lineHeight w =
     w\<lparr>contents := (contents w)\<lparr>drawn := drawn (contents w) @
        [DrawText (fontSize (contents w)) (fontBold (contents w)) (textColor (contents w))
           txt x y maxWidth lineHeight]\<rparr>\<rparr>"

definition drawIcon :: "jsnum \<Rightarrow> real \<Rightarrow> real \<Rightarrow> window \<Rightarrow> window" where
  "drawIcon iconIdx x y w =
     w\<lparr>contents := (contents w)\<lparr>drawn := drawn (contents w) @ [DrawIcon iconIdx x y]\<rparr>\<rparr>"

definition changeTextColor :: "nat \<Rightarrow> window \<Rightarrow> window" where
  "changeTextColor n w = w\<lparr>contents := (contents w)\<lparr>textColor := n\<rparr>\<rparr>"

definition setFontSize :: "real \<Rightarrow> window \<Rightarrow> window" where
  "setFontSize s w = w\<lparr>contents := (contents w)\<lparr>fontSize := s\<rparr>\<rparr>"

definition setFontBold :: "bool \<Rightarrow> window \<Rightarrow> window" where
  "setFontBold b w = w\<lparr>contents := (contents w)\<lparr>fontBold := b\<rparr>\<rparr>"

text \<open>\<open>Window_Base.resetFontSettings\<close>: the standard font size and the normal colour.\<close>

definition resetFontSettings :: "host \<Rightarrow> window \<Rightarrow> window" where
  "resetFontSettings h w = changeTextColor 0 (setFontSize (standardFontSize h) w)"

definition standardPadding :: real where
  "standardPadding = 8"

definition contentsWidth :: "window \<Rightarrow> real" where
  "contentsWidth w = width w - standardPadding * 2"

subsection \<open>Strings and the three regular expressions\<close>

text \<open>
  The flag \<open>i\<close> compares characters after mapping the letters A-Z to a-z. No other
  character is equivalent to a character of the patterns, which are ASCII.
\<close>

definition lowerChar :: "char \<Rightarrow> char" where
  "lowerChar c =
     (if 65 \<le> (of_char c :: nat) \<and> (of_char c :: nat) \<le> 90
      then char_of ((of_char c :: nat) + 32) else c)"

text \<open>The pattern, a literal text, matches at the start of the string.\<close>

fun prefixCI :: "string \<Rightarrow> string \<Rightarrow> bool" where
  "prefixCI [] s = True"
| "prefixCI (p # ps) [] = False"
| "prefixCI (p # ps) (c # cs) = (lowerChar c = lowerChar p \<and> prefixCI ps cs)"

text \<open>The pattern matches somewhere: the search of \<open>String.prototype.match\<close>.\<close>

fun containsCI :: "string \<Rightarrow> string \<Rightarrow> bool" where
  "containsCI p [] = prefixCI p []"
| "containsCI p (c # cs) = (prefixCI p (c # cs) \<or> containsCI p cs)"

text \<open>
  The number of bytes of the white-space character at the start of a string, 0 when the
  string does not start with one. The white space of a regular expression is U+0009 to
  U+000D, U+0020, U+00A0, U+1680, U+2000 to U+200A, U+2028, U+2029, U+202F, U+205F, U+3000
  and U+FEFF.
\<close>

definition wsLen :: "string \<Rightarrow> nat" where
  "wsLen s =
     (let b = map (of_char :: char \<Rightarrow> nat) (take 3 s) in
      if b = [] then 0
      else if hd b \<in> {9, 10, 11, 12, 13, 32} then 1
      else if take 2 b = [194, 160] then 2
      else if b = [225, 154, 128] \<or> b = [226, 129, 159] \<or> b = [227, 128, 128]
              \<or> b = [239, 187, 191] then 3
      else if take 2 b = [226, 128] \<and> length b = 3
              \<and> (b ! 2 \<in> {128..138} \<or> b ! 2 \<in> {168, 169, 175}) then 3
      else 0)"

text \<open>
  The same for a line terminator, which the dot of a regular expression does not match:
  U+000A, U+000D, U+2028 and U+2029.
\<close>

definition ltLen :: "string \<Rightarrow> nat" where
  "ltLen s =
     (let b = map (of_char :: char \<Rightarrow> nat) (take 3 s) in
      if b = [] then 0
      else if hd b \<in> {10, 13} then 1
      else if b = [226, 128, 168] \<or> b = [226, 128, 169] then 3
      else 0)"

definition isDigit :: "char \<Rightarrow> bool" where
  "isDigit c = (48 \<le> (of_char c :: nat) \<and> (of_char c :: nat) \<le> 57)"

text \<open>
  The group \<open>(.+?)\<close> followed by \<open>>\<close>: \<open>scanGt acc s\<close> has taken \<open>acc\<close>, at least one
  character, and extends it as little as possible up to the next \<open>>\<close>; a line terminator
  or the end of the string before it is a failure. The bytes after the first byte of a
  character are neither \<open>>\<close> nor the start of a line terminator, so the scan may go byte
  by byte.
\<close>

fun scanGt :: "string \<Rightarrow> string \<Rightarrow> string option" where
  "scanGt acc [] = None"
| "scanGt acc (c # cs) =
     (if c = CHR ''>'' then Some acc
      else if ltLen (c # cs) > 0 then None
      else scanGt (acc @ [c]) cs)"

fun lazyCapture :: "string \<Rightarrow> string option" where
  "lazyCapture [] = None"
| "lazyCapture (c # cs) = (if ltLen (c # cs) > 0 then None else scanGt [c] cs)"

text \<open>
  White space, then the group and \<open>>\<close>: the white space is taken greedily, and given
  back one character at a time when the rest does not match.
\<close>

function descBody :: "string \<Rightarrow> string option" where
  "descBody s =
     (if wsLen s > 0 then
        (case descBody (drop (wsLen s) s) of Some d \<Rightarrow> Some d | None \<Rightarrow> lazyCapture s)
      else lazyCapture s)"
  by pat_completeness auto
termination
proof (relation "measure length")
  show "wf (measure length)" by simp
next
  fix s :: string
  assume "0 < wsLen s"
  then have "s \<noteq> []" by (cases s) (simp_all add: wsLen_def)
  with \<open>0 < wsLen s\<close> show "(drop (wsLen s) s, s) \<in> measure length" by simp
qed

declare descBody.simps [simp del]

text \<open>
  The match of the note against the pattern for \<open><Desc:text>\<close>: the first group of the
  leftmost match.
\<close>

fun matchDesc :: "string \<Rightarrow> string option" where
  "matchDesc [] = None"
| "matchDesc (c # cs) =
     (case (if prefixCI ''<Desc:'' (c # cs) then descBody (drop 6 (c # cs)) else None) of
        Some d \<Rightarrow> Some d
      | None \<Rightarrow> matchDesc cs)"

text \<open>The string after the white space at its start.\<close>

function dropWs :: "string \<Rightarrow> string" where
  "dropWs s = (if wsLen s > 0 then dropWs (drop (wsLen s) s) else s)"
  by pat_completeness auto
termination
proof (relation "measure length")
  show "wf (measure length)" by simp
next
  fix s :: string
  assume "0 < wsLen s"
  then have "s \<noteq> []" by (cases s) (simp_all add: wsLen_def)
  with \<open>0 < wsLen s\<close> show "(drop (wsLen s) s, s) \<in> measure length" by simp
qed

declare dropWs.simps [simp del]

text \<open>
  White space, then a group of digits and \<open>>\<close>: white space, digits and \<open>>\<close> exclude one
  another, so the greedy match is the only one.
\<close>

definition iconBody :: "string \<Rightarrow> string option" where
  "iconBody s =
     (let r = dropWs s; ds = takeWhile isDigit r; r' = dropWhile isDigit r
      in if ds \<noteq> [] \<and> r' \<noteq> [] \<and> hd r' = CHR ''>'' then Some ds else None)"

fun matchStatusIcon :: "string \<Rightarrow> string option" where
  "matchStatusIcon [] = None"
| "matchStatusIcon (c # cs) =
     (case (if prefixCI ''<StatusIcon:'' (c # cs) then iconBody (drop 12 (c # cs)) else None) of
        Some d \<Rightarrow> Some d
      | None \<Rightarrow> matchStatusIcon cs)"

text \<open>
  \<open>parseInt\<close> of a string of decimal digits: the double nearest to the number that the
  digits denote.
\<close>

definition decimalValue :: "string \<Rightarrow> int" where
  "decimalValue ds = foldl (\<lambda>n c. 10 * n + (int (of_char c) - 48)) 0 ds"

definition parseInt :: "host \<Rightarrow> string \<Rightarrow> jsnum" where
  "parseInt h ds = toDouble h (of_int (decimalValue ds))"

text \<open>\<open>Array.prototype.join\<close>.\<close>

fun joinWith :: "string \<Rightarrow> string list \<Rightarrow> string" where
  "joinWith sep [] = []"
| "joinWith sep [x] = x"
| "joinWith sep (x # y # zs) = x @ sep @ joinWith sep (y # zs)"

text \<open>\<open>description.split(' ')\<close>: the pieces between the spaces, empty pieces included.\<close>

fun splitSpace :: "string \<Rightarrow> string list" where
  "splitSpace [] = [[]]"
| "splitSpace (c # cs) =
     (if c = CHR '' '' then [] # splitSpace cs
      else (case splitSpace cs of [] \<Rightarrow> [[c]] | wd # wds \<Rightarrow> (c # wd) # wds))"

subsection \<open>Helper functions for state descriptions\<close>

text \<open>
  \<open>isStateHiddenInMenu\<close> returns a value that its caller tests for truth: the model
  returns that truth value. An empty note is falsy.
\<close>

definition isStateHiddenInMenu :: "state option \<Rightarrow> bool" where
  "isStateHiddenInMenu st =
     (case st of
        None \<Rightarrow> False
      | Some s \<Rightarrow> state_note s \<noteq> [] \<and> containsCI ''<HideInStatus>'' (state_note s))"

definition convertRateString :: "host \<Rightarrow> jsnum \<Rightarrow> string" where
  "convertRateString h rate =
     (if jsEq rate (Fin 0) then []
      else
        (let rateDisplay = numToStr h (jsMul (toDouble h) rate (Fin 100)) @ ''% RATE'';
             rateDisplay = (if jsLt (Fin 0) rate then ''+'' @ rateDisplay else rateDisplay)
         in rateDisplay @ '' ''))"

definition paramNames :: "string list" where
  "paramNames = [''HP'', ''MP'', ''ATK'', ''DEF'', ''MAT'', ''MDF'', ''AGI'', ''LUK'']"

definition xparamNames :: "string list" where
  "xparamNames =
     [''HIT'', ''EVA'', ''CRI'', ''CEV'', ''MEV'', ''MRF'', ''CNT'', ''HRG'', ''MRG'', ''TRG'']"

text \<open>The text \<open>${percentageChange > 0 ? "+" : ""}${percentageChange}% ${name}\<close>.\<close>

definition percentText :: "host \<Rightarrow> jsnum \<Rightarrow> string \<Rightarrow> string" where
  "percentText h percentageChange nm =
     (if jsLt (Fin 0) percentageChange then ''+'' else []) @ numToStr h percentageChange
       @ ''% '' @ nm"

definition convertTraitEffect :: "host \<Rightarrow> trait \<Rightarrow> string" where
  "convertTraitEffect h tr =
     (let v = trait_value tr; ty = trait_code tr in
      if ty = TRAIT_PARAM h then
        (if dataId tr < length paramNames then
           (let paramName = paramNames ! dataId tr;
                percentageChange =
                  mathRound (jsMul (toDouble h) (jsSub (toDouble h) v (Fin 1)) (Fin 100))
            in if \<not> jsEq percentageChange (Fin 0) then percentText h percentageChange paramName
               else [])
         else [])
      else if ty = TRAIT_XPARAM h then
        (if dataId tr < length xparamNames then
           (let paramName = xparamNames ! dataId tr;
                percentageChange = mathRound (jsMul (toDouble h) v (Fin 100))
            in if \<not> jsEq percentageChange (Fin 0) then percentText h percentageChange paramName
               else [])
         else [])
      else if ty = TRAIT_SPARAM h then
        (if dataId tr = 0 then
           (let elementId = trait_value tr;
                percentageChange =
                  mathRound (jsMul (toDouble h) (jsSub (toDouble h) elementId (Fin 1)) (Fin 100))
            in if \<not> jsEq percentageChange (Fin 0) then percentText h percentageChange ''ELEMENT''
               else [])
         else [])
      else [])"

text \<open>The \<open>forEach\<close> of \<open>getStateDescription\<close>: the non-empty effect texts, in order.\<close>

fun traitTexts :: "host \<Rightarrow> trait list \<Rightarrow> string list \<Rightarrow> string list" where
  "traitTexts h [] descriptions = descriptions"
| "traitTexts h (tr # trs) descriptions =
     (let effectText = convertTraitEffect h tr
      in traitTexts h trs (if effectText \<noteq> [] then descriptions @ [effectText] else descriptions))"

text \<open>The parameters \<open>actor\<close> and \<open>stateId\<close> of the source are not used by it.\<close>

definition getStateDescription :: "host \<Rightarrow> state \<Rightarrow> string" where
  "getStateDescription h s =
     (case matchDesc (state_note s) of
        Some d \<Rightarrow> d
      | None \<Rightarrow>
          (let descriptions = traitTexts h (traits s) [];
               descriptions = (if jsLt (Fin 0) (speed s)
                               then descriptions @
                                 [convertRateString h (jsDiv (toDouble h) (speed s) (Fin 100))]
                               else descriptions);
               descriptions = (if jsLt (Fin 0) (autoRemovalTiming s) then descriptions @ [[]]
                               else descriptions);
               descriptions = (if removeByDamage s then descriptions @ [[]] else descriptions);
               descriptions = (if length descriptions = 0 then descriptions @ [''NO EFFECTS'']
                               else descriptions)
           in joinWith '' '' descriptions))"

definition getStateIconIndex :: "host \<Rightarrow> state \<Rightarrow> jsnum" where
  "getStateIconIndex h s =
     (case matchStatusIcon (state_note s) of
        Some ds \<Rightarrow> parseInt h ds
      | None \<Rightarrow> iconIndex s)"

subsection \<open>\<open>Window_ActorInfo\<close>\<close>

definition filterStates :: "state option list option \<Rightarrow> state list" where
  "filterStates sts =
     (case sts of
        None \<Rightarrow> []
      | Some l \<Rightarrow> map the (filter (\<lambda>st. st \<noteq> None \<and> \<not> isStateHiddenInMenu st) l))"

definition getFilteredStateCount :: "actor option \<Rightarrow> nat" where
  "getFilteredStateCount ac =
     (case ac of None \<Rightarrow> 0 | Some a \<Rightarrow> length (filterStates (states a)))"

definition getBaseStat :: "host \<Rightarrow> actor \<Rightarrow> nat \<Rightarrow> jsnum" where
  "getBaseStat h a paramId = jsAdd (toDouble h) (paramBase a paramId) (paramPlus a paramId)"

text \<open>\<open>equips[i] ? equips[i].name : "NONE"\<close>; an index beyond the array reads undefined.\<close>

definition equipName :: "equip option list \<Rightarrow> nat \<Rightarrow> string" where
  "equipName es i =
     (if i < length es then (case es ! i of None \<Rightarrow> ''NONE'' | Some e \<Rightarrow> equip_name e)
      else ''NONE'')"

definition drawHeader :: "window \<Rightarrow> window" where
  "drawHeader w =
     (case actor w of
        None \<Rightarrow> w
      | Some a \<Rightarrow>
          (let x = 8; y = 8;
               w = changeTextColor 0 w;
               w = setFontSize 24 w;
               w = setFontBold True w;
               w = drawText (actor_name a) x y (contentsWidth w - 16) 28 w;
               w = setFontBold False w;
               x = x + 124;
               weapon = equipName (equips a) 0;
               charm = equipName (equips a) 1;
               w = setFontSize 20 w;
               w = changeTextColor 13 w;
               w = drawText ''WEAPON: '' x y 100 22 w;
               w = changeTextColor 0 w;
               w = drawText weapon (x + 60) y 85 22 w;
               w = changeTextColor 13 w;
               w = drawText ''CHARM: '' (x + 150) y 80 22 w;
               w = changeTextColor 0 w
           in drawText charm (x + 205) y 120 22 w))"

text \<open>
  The entries of the two lines of statistics. In the first line the value is a number, in
  the second a string; the arrows are the UTF-8 bytes of the characters U+2193 and U+2191.
\<close>

record statEntry =
  stat_label :: string
  stat_num :: jsnum
  stat_color :: nat
  stat_arrow :: string

record rateEntry =
  rate_label :: string
  rate_text :: string

definition arrowDown :: string where
  "arrowDown = [char_of (226::nat), char_of (134::nat), char_of (147::nat)]"

definition arrowUp :: string where
  "arrowUp = [char_of (226::nat), char_of (134::nat), char_of (145::nat)]"

text \<open>\<open>formatStat\<close>; a comparison with an undefined \<open>base\<close> is false.\<close>

definition formatStat :: "string \<Rightarrow> jsnum \<Rightarrow> jsnum option \<Rightarrow> statEntry" where
  "formatStat lbl stat base =
     (let lt = (case base of None \<Rightarrow> False | Some b \<Rightarrow> jsLt stat b);
          gt = (case base of None \<Rightarrow> False | Some b \<Rightarrow> jsLt b stat)
      in \<lparr>stat_label = lbl, stat_num = stat,
          stat_color = (if lt then 2 else if gt then 3 else 0),
          stat_arrow = (if lt then arrowDown else if gt then arrowUp else [])\<rparr>)"

definition formatRateStat :: "host \<Rightarrow> string \<Rightarrow> jsnum \<Rightarrow> rateEntry" where
  "formatRateStat h lbl rate =
     \<lparr>rate_label = lbl,
      rate_text = numToStr h (mathRound (jsMul (toDouble h) rate (Fin 100))) @ ''%''\<rparr>"

fun drawLine1 :: "host \<Rightarrow> statEntry list \<Rightarrow> real \<Rightarrow> real \<Rightarrow> real \<Rightarrow> window \<Rightarrow> window" where
  "drawLine1 h [] statX y fs w = w"
| "drawLine1 h (stat # rest) statX y fs w =
     (let w = changeTextColor 0 w;
          w = drawText (stat_label stat) statX y 40 (fs + 4) w;
          w = changeTextColor (stat_color stat) w;
          valueText = numToStr h (stat_num stat);
          valueText = (if stat_arrow stat \<noteq> [] then valueText @ '' '' @ stat_arrow stat
                       else valueText);
          w = drawText valueText (statX + 35) y 60 (fs + 4) w
      in drawLine1 h rest (statX + 85) y fs w)"

fun drawLine2 :: "rateEntry list \<Rightarrow> real \<Rightarrow> real \<Rightarrow> real \<Rightarrow> window \<Rightarrow> window" where
  "drawLine2 [] statX y fs w = w"
| "drawLine2 (stat # rest) statX y fs w =
     (let w = changeTextColor 0 w;
          w = drawText (rate_label stat) statX y 90 (fs + 4) w;
          w = changeTextColor 0 w;
          w = drawText (rate_text stat) (statX + 85) y 60 (fs + 4) w
      in drawLine2 rest (statX + 125) y fs w)"

text \<open>
  \<open>drawStatsSection\<close>. The source also computes \<open>displayedAtk\<close> and \<open>displayedDef\<close> with
  \<open>convertMagicParamRate\<close> and never uses them; they are left out.
\<close>

definition drawStatsSection :: "host \<Rightarrow> window \<Rightarrow> window" where
  "drawStatsSection h w =
     (case actor w of
        None \<Rightarrow> w
      | Some a \<Rightarrow>
          (let x = 20; y = 30;
               baseAtk = getBaseStat h a 2;
               baseDef = getBaseStat h a 3;
               baseAgi = getBaseStat h a 6;
               baseLuk = getBaseStat h a 7;
               fs = (if jsLt (Fin 0) (eva a) then 22 else 22);
               w = setFontSize fs w;
               line1Stats =
                 [formatStat ''LV: '' (level a) None,
                  formatStat ''ATK: '' (atk a) (Some baseAtk),
                  formatStat ''DEF: '' (def a) (Some baseDef),
                  formatStat ''SPD: '' (agi a) (Some baseAgi),
                  formatStat ''LUK: '' (luk a) (Some baseLuk)];
               w = drawLine1 h line1Stats x y fs w;
               y = y + (fs + 4);
               line2Stats = [formatRateStat h ''HIT RATE: '' (hit a)];
               line2Stats = (if jsLt (Fin 0) (eva a)
                             then line2Stats @ [formatRateStat h ''EVASION: '' (eva a)]
                             else line2Stats);
               statX = (if jsLt (Fin 0) (eva a) then x + 75 else x + 125);
               w = drawLine2 line2Stats statX y fs w
           in resetFontSettings h w))"

subsection \<open>Drawing one state\<close>

text \<open>
  The loop of lines 561-570 over the words that are left, with the lines pushed so far
  and the current line; it returns both. After the third push it stops.
\<close>

fun wrapLoop ::
  "(string \<Rightarrow> real) \<Rightarrow> real \<Rightarrow> string list \<Rightarrow> string list \<Rightarrow> string \<Rightarrow> string list \<times> string" where
  "wrapLoop m maxWidth [] lines currentLine = (lines, currentLine)"
| "wrapLoop m maxWidth (wd # wds) lines currentLine =
     (let testLine = currentLine @ (if currentLine \<noteq> [] then '' '' else []) @ wd in
      if m testLine > maxWidth then
        (let lines = lines @ [currentLine] in
         if length lines \<ge> 3 then (lines, wd)
         else wrapLoop m maxWidth wds lines wd)
      else wrapLoop m maxWidth wds lines testLine)"

text \<open>Lines 556-574: the lines of a description, for a text-width measure \<open>m\<close>.\<close>

definition wrapText :: "(string \<Rightarrow> real) \<Rightarrow> real \<Rightarrow> string \<Rightarrow> string list" where
  "wrapText m maxWidth description =
     (let wds = splitSpace description;
          (lines, currentLine) = wrapLoop m maxWidth wds [] []
      in if currentLine \<noteq> [] \<and> length lines < 3 then lines @ [currentLine] else lines)"

text \<open>Lines 577-583: the loop that draws the lines, from the line number \<open>l\<close>.\<close>

function drawLines ::
  "string list \<Rightarrow> nat \<Rightarrow> real \<Rightarrow> real \<Rightarrow> real \<Rightarrow> real \<Rightarrow> window \<Rightarrow> window" where
  "drawLines lines l tx lineY maxWidth lineHeight w =
     (if l < min (length lines) 3 then
        drawLines lines (Suc l) tx (lineY + lineHeight) maxWidth lineHeight
          (drawText (lines ! l) tx lineY maxWidth lineHeight w)
      else w)"
  by pat_completeness auto
termination
  by (relation "measure (\<lambda>(lines, l, tx, lineY, maxWidth, lineHeight, w). min (length lines) 3 - l)")
    auto

declare drawLines.simps [simp del]

text \<open>The body of \<open>if (description)\<close> in \<open>drawState\<close>, lines 552-583.\<close>

definition drawDescription ::
  "host \<Rightarrow> string \<Rightarrow> real \<Rightarrow> real \<Rightarrow> real \<Rightarrow> window \<Rightarrow> window" where
  "drawDescription h description x y wd w =
     (let iconSize = 32;
          w = setFontSize (if stateColumns w > 2 then 14 else 16) w;
          w = changeTextColor 0 w;
          maxWidth = wd - iconSize - 8;
          lines = wrapText (measureTextWidth h (fontSize (contents w)) (fontBold (contents w)))
                    maxWidth description;
          lineY = y + 15;
          lineHeight = 12
      in drawLines lines 0 (x + iconSize + 4) lineY maxWidth lineHeight w)"

text \<open>
  \<open>drawState\<close>. With a state and no actor the access \<open>this._actor.isStateAffected\<close> raises
  a \<open>TypeError\<close>.
\<close>

definition drawState ::
  "host \<Rightarrow> state option \<Rightarrow> real \<Rightarrow> real \<Rightarrow> real \<Rightarrow> window \<Rightarrow> error + window" where
  "drawState h st x y wd w =
     (case st of
        None \<Rightarrow> Inr w
      | Some s \<Rightarrow>
          (let iconSize = 32;
               iconIdx = getStateIconIndex h s;
               w = drawIcon iconIdx x y w;
               stateId = state_id s
           in case actor w of
                None \<Rightarrow> Inl TypeError
              | Some a \<Rightarrow>
                  (let turnText =
                         (if isStateAffected a stateId \<and> jsLt (Fin 0) (autoRemovalTiming s) then
                            (let turns = (case stateTurns a stateId of
                                            None \<Rightarrow> Fin 0
                                          | Some t \<Rightarrow> if truthy t then t else Fin 0)
                             in if jsLt (Fin 0) turns
                                then '' ('' @ numToStr h turns @ '' TURNS)'' else [])
                          else []);
                       w = changeTextColor 0 w;
                       w = setFontSize (if stateColumns w > 2 then 16 else 18) w;
                       w = setFontBold True w;
                       nameText = state_name s @ turnText;
                       w = drawText nameText (x + iconSize + 4) y (wd - iconSize - 4) 18 w;
                       w = setFontBold False w;
                       description = getStateDescription h s;
                       w = (if description \<noteq> [] then drawDescription h description x y wd w
                            else w)
                   in Inr (changeTextColor 0 w))))"

text \<open>The loop of lines 505-514 of \<open>drawStatesSection\<close>, from the index \<open>i\<close>.\<close>

function statesLoop ::
  "host \<Rightarrow> state list \<Rightarrow> nat \<Rightarrow> nat \<Rightarrow> real \<Rightarrow> real \<Rightarrow> real \<Rightarrow> real \<Rightarrow> window
   \<Rightarrow> error + window" where
  "statesLoop h sts stateCount i x y colWidth rowHeight w =
     (if i < stateCount then
        (let s = sts ! i;
             col = i mod stateColumns w;
             row = i div stateColumns w;
             stateX = x + (real col * colWidth);
             stateY = y + (real row * rowHeight)
         in case drawState h (Some s) stateX stateY (colWidth - 8) w of
              Inl e \<Rightarrow> Inl e
            | Inr w' \<Rightarrow> statesLoop h sts stateCount (Suc i) x y colWidth rowHeight w')
      else Inr w)"
  by pat_completeness auto
termination
  by (relation "measure (\<lambda>(h, sts, stateCount, i, x, y, colWidth, rowHeight, w). stateCount - i)")
    auto

declare statesLoop.simps [simp del]

definition drawStatesSection :: "host \<Rightarrow> window \<Rightarrow> error + window" where
  "drawStatesSection h w =
     (case actor w of
        None \<Rightarrow> Inr w
      | Some a \<Rightarrow>
          (let x = 8; y = 85;
               sts = filterStates (states a);
               stateCount = length sts
           in if stateCount = 0 then
                (let w = setFontSize 24 w;
                     w = changeTextColor 0 w
                 in Inr (drawText ''NO EFFECTS ACTIVE'' (x + 150) (y + 75) (contentsWidth w - 16) 22 w))
              else
                (let w = setFontSize 24 w;
                     w = changeTextColor 0 w;
                     w = drawText (''STATES ('' @ numToStr h (Fin (real stateCount)) @ '')'')
                           (x + 175) (y - 2) (contentsWidth w - 16) 22 w;
                     y = y + 26;
                     w = w\<lparr>stateColumns :=
                           (if stateCount > 9 then 4 else if stateCount > 6 then 3 else 2)\<rparr>;
                     colWidth = of_int \<lfloor>(contentsWidth w - 16) / real (stateColumns w)\<rfloor>;
                     rowHeight = 60
                 in statesLoop h sts stateCount 0 x y colWidth rowHeight w)))"

definition refresh :: "host \<Rightarrow> window \<Rightarrow> error + window" where
  "refresh h w =
     (case actor w of
        None \<Rightarrow> Inr w
      | Some a \<Rightarrow>
          (let w = clear w;
               w = drawHeader w;
               w = drawStatsSection h w
           in drawStatesSection h w))"

definition refreshIfNeeded :: "host \<Rightarrow> window \<Rightarrow> error + window" where
  "refreshIfNeeded h w =
     (let currentStateCount = int (getFilteredStateCount (actor w))
      in if currentStateCount \<noteq> lastStateCount w
         then refresh h (w\<lparr>lastStateCount := currentStateCount\<rparr>)
         else Inr w)"

subsection \<open>Notions used to state the properties\<close>

text \<open>The icons that have been drawn into the contents of a window, in order.\<close>

fun isIcon :: "drawOp \<Rightarrow> bool" where
  "isIcon (DrawIcon i x y) = True"
| "isIcon (DrawText s b c t x y mw lh) = False"

definition icons :: "window \<Rightarrow> drawOp list" where
  "icons w = filter isIcon (drawn (contents w))"

text \<open>
  The texts of the lines of a description in the cell of a state at \<open>(x, y)\<close> of width
  \<open>wd\<close>: one below the other from \<open>y + 15\<close>, 12 pixels apart, to the right of the icon, in
  the colour 0.
\<close>

definition lineTexts ::
  "real \<Rightarrow> bool \<Rightarrow> string list \<Rightarrow> real \<Rightarrow> real \<Rightarrow> real \<Rightarrow> drawOp list" where
  "lineTexts fs b lines x y wd =
     map (\<lambda>i. DrawText fs b 0 (lines ! i) (x + 36) (y + 15 + 12 * real i) (wd - 40) 12)
       [0..<length lines]"

text \<open>
  Greedy wrapping as the specification words it, with no bound on the number of lines:
  the next word is appended to the current line, after a space when the line is not
  empty, if the measured width of the extended line does not exceed the available width;
  otherwise the current line is emitted and the word starts a new line. The line that is
  left at the end is emitted when it is not empty.
\<close>

fun greedyWrapSpec :: "(string \<Rightarrow> real) \<Rightarrow> real \<Rightarrow> string list \<Rightarrow> string \<Rightarrow> string list" where
  "greedyWrapSpec m maxWidth [] cur = (if cur \<noteq> [] then [cur] else [])"
| "greedyWrapSpec m maxWidth (wd # wds) cur =
     (let ext = (if cur = [] then wd else cur @ '' '' @ wd) in
      if m ext \<le> maxWidth then greedyWrapSpec m maxWidth wds ext
      else cur # greedyWrapSpec m maxWidth wds wd)"

text \<open>
  A note contains the tag \<open><HideInStatus>\<close>, case-insensitively, as the specification
  words it: some part of the note is the tag up to the case of its letters.
\<close>

definition hasHideInStatusTag :: "string \<Rightarrow> bool" where
  "hasHideInStatusTag nt =
     (\<exists>pre tag post. nt = pre @ tag @ post \<and> map lowerChar tag = ''<hideinstatus>'')"

subsection \<open>Example data\<close>

text \<open>
  A host whose font makes every character half as wide as the font size, whose finite
  numbers are printed as the decimal digits of their integer part and whose arithmetic is
  exact.
\<close>

function showNat :: "nat \<Rightarrow> string" where
  "showNat n =
     (if n < 10 then [char_of (48 + n)] else showNat (n div 10) @ [char_of (48 + n mod 10)])"
  by pat_completeness auto
termination
  by (relation "measure id") auto

declare showNat.simps [simp del]

definition exHost :: host where
  "exHost = \<lparr>measureTextWidth = (\<lambda>fs b s. fs / 2 * real (length s)),
             numToStr = (\<lambda>n. case n of Fin r \<Rightarrow> showNat (nat \<lfloor>r\<rfloor>) | _ \<Rightarrow> ''NaN''),
             toDouble = Fin,
             standardFontSize = 28,
             TRAIT_PARAM = 21, TRAIT_XPARAM = 22, TRAIT_SPARAM = 23\<rparr>"

definition exState :: "int \<Rightarrow> string \<Rightarrow> state" where
  "exState i nt = \<lparr>state_id = i, state_name = ''STATE'', state_note = nt,
                   iconIndex = Fin (of_int i), traits = [], speed = Fin 0,
                   autoRemovalTiming = Fin 0, removeByDamage = False\<rparr>"

definition exActor :: "state option list option \<Rightarrow> actor" where
  "exActor sts = \<lparr>actor_name = ''OMORI'', equips = [], level = Fin 1, atk = Fin 10,
                  def = Fin 10, agi = Fin 10, luk = Fin 10, hit = Fin 1, eva = Fin 0,
                  paramBase = (\<lambda>i. Fin 10), paramPlus = (\<lambda>i. Fin 0),
                  states = sts, isStateAffected = (\<lambda>i. True), stateTurns = (\<lambda>i. None)\<rparr>"

definition exBitmap :: bitmap where
  "exBitmap = \<lparr>fontSize = 28, fontBold = False, textColor = 0, drawn = []\<rparr>"

definition exWindow :: "actor option \<Rightarrow> window" where
  "exWindow ac = \<lparr>actor = ac, stateColumns = 2, lastStateCount = 0, width = 480,
                  contents = exBitmap\<rparr>"

definition exStates :: "state option list" where
  "exStates = [Some (exState 1 []), None, Some (exState 2 ''x <hideINstatus> y''),
               Some (exState 3 ''<Desc:hi>'')]"

definition exDescState :: state where
  "exDescState = exState 1 ''<Desc:aa bb cc dd ee ff gg hh>''"

definition exSevenStates :: "state option list" where
  "exSevenStates = map (\<lambda>i. Some (exState i [])) [1, 2, 3, 4, 5, 6, 7]"

section \<open>Properties of the target selection\<close>

subsection \<open>The two loops\<close>

lemma jsLt_imp_jsLe: "jsLt a b \<Longrightarrow> jsLe a b"
  by (cases a; cases b) auto

lemma weightLoop_eq:
  "weightLoop rd ts (ws, tot) = (ws @ map weightOf ts, foldl (jsAdd rd) tot (map weightOf ts))"
  by (induction ts arbitrary: ws tot) simp_all

lemma groupWeights_eq: "groupWeights rd grp = map weightOf grp"
  by (simp add: groupWeights_def weightLoop_eq)

lemma groupTotalWeight_eq:
  "groupTotalWeight rd grp = cumulative rd (map weightOf grp) (length grp)"
  by (simp add: groupTotalWeight_def weightLoop_eq cumulative_def)

lemma cumulative_Suc:
  "i < length ws \<Longrightarrow> cumulative rd ws (Suc i) = jsAdd rd (cumulative rd ws i) (ws ! i)"
  by (simp add: cumulative_def take_Suc_conv_app_nth)

text \<open>
  When the running sum is the cumulative weight of the first \<open>i\<close> weights, the loop finds
  the first position from \<open>i\<close> on whose cumulative weight reaches the draw.
\<close>

lemma selectLoop_find:
  assumes "n = length ws" "s = cumulative rd ws i"
  shows "selectLoop rd n ws r i s = List.find (\<lambda>k. jsLe r (cumulative rd ws (Suc k))) [i..<n]"
  using assms
proof (induction rd n ws r i s rule: selectLoop.induct)
  case (1 rd n weights randomValue i weightSum)
  show ?case
  proof (cases "i < n")
    case False
    then have "n \<le> i" by (rule leI)
    then have e: "[i..<n] = []" by simp
    have "selectLoop rd n weights randomValue i weightSum = None"
      by (subst selectLoop.simps) (simp only: False if_False)
    then show ?thesis by (simp add: e)
  next
    case True
    with "1.prems" have step:
      "jsAdd rd weightSum (weights ! i) = cumulative rd weights (Suc i)"
      by (simp add: cumulative_Suc)
    from True have upt: "[i..<n] = i # [Suc i..<n]" by (rule upt_conv_Cons)
    show ?thesis
    proof (cases "jsLe randomValue (cumulative rd weights (Suc i))")
      case le: True
      have "selectLoop rd n weights randomValue i weightSum = Some i"
        by (subst selectLoop.simps) (simp add: True Let_def step le)
      with le show ?thesis by (simp add: upt)
    next
      case nle: False
      have "selectLoop rd n weights randomValue i weightSum
          = selectLoop rd n weights randomValue (Suc i) (cumulative rd weights (Suc i))"
        by (subst selectLoop.simps) (simp add: True Let_def step nle)
      also have "\<dots> = List.find (\<lambda>k. jsLe randomValue (cumulative rd weights (Suc k))) [Suc i..<n]"
        using "1.IH" [OF True refl _ "1.prems"(1)] nle step by simp
      finally show ?thesis using nle by (simp add: upt)
    qed
  qed
qed

lemma setRandomTarget_unfold:
  "grp \<noteq> [] \<Longrightarrow>
   setRandomTarget rd grp rnd act =
     (case selectLoop rd (length grp) (groupWeights rd grp)
             (jsMul rd rnd (groupTotalWeight rd grp)) 0 (Fin 0) of
        Some i \<Rightarrow> setTarget (index (grp ! i)) act
      | None \<Rightarrow> setTarget (index (grp ! 0)) act)"
  by (simp add: setRandomTarget_def groupWeights_def groupTotalWeight_def split: prod.splits)

text \<open>The loops of the source compute the weighted choice of the specification.\<close>

lemma setRandomTarget_choice:
  assumes "grp \<noteq> []"
  shows "setRandomTarget rd grp rnd act
       = act\<lparr>targetIndex := index (grp ! weightedChoice rd (map weightOf grp) rnd)\<rparr>"
proof -
  let ?ws = "map weightOf grp"
  have "selectLoop rd (length grp) ?ws (jsMul rd rnd (groupTotalWeight rd grp)) 0 (Fin 0)
      = List.find (\<lambda>k. jsLe (jsMul rd rnd (groupTotalWeight rd grp)) (cumulative rd ?ws (Suc k)))
          [0..<length grp]"
    by (rule selectLoop_find) (simp_all add: cumulative_def)
  then show ?thesis
    using assms
    by (simp add: setRandomTarget_unfold groupWeights_eq groupTotalWeight_eq weightedChoice_def
        setTarget_def Let_def split: option.splits)
qed

text \<open>What the search of the weighted choice finds.\<close>

lemma find_upt_Some:
  "List.find P [0..<n] = Some k \<longleftrightarrow> k < n \<and> P k \<and> (\<forall>j<k. \<not> P j)"
  by (auto simp: find_Some_iff)

lemma find_upt_None: "List.find P [0..<n] = None \<longleftrightarrow> (\<forall>k<n. \<not> P k)"
  by (auto simp: find_None_iff)

lemma weightedChoice_reached:
  assumes "List.find (\<lambda>k. jsLe (jsMul rd rnd (cumulative rd ws (length ws)))
                        (cumulative rd ws (Suc k))) [0..<length ws] = Some k"
  shows "weightedChoice rd ws rnd = k"
  using assms by (simp add: weightedChoice_def Let_def)

lemma weightedChoice_fallback:
  assumes "\<forall>k<length ws. \<not> jsLe (jsMul rd rnd (cumulative rd ws (length ws)))
                              (cumulative rd ws (Suc k))"
  shows "weightedChoice rd ws rnd = 0"
proof -
  from assms have "List.find (\<lambda>k. jsLe (jsMul rd rnd (cumulative rd ws (length ws)))
                        (cumulative rd ws (Suc k))) [0..<length ws] = None"
    by (simp add: find_upt_None)
  then show ?thesis by (simp add: weightedChoice_def Let_def)
qed

text \<open>A draw below the total weight is reached by the last cumulative weight at the latest.\<close>

lemma find_reaches:
  assumes "ws \<noteq> []" and "jsLt r (cumulative rd ws (length ws))"
  shows "\<exists>k. List.find (\<lambda>k. jsLe r (cumulative rd ws (Suc k))) [0..<length ws] = Some k"
proof (cases "List.find (\<lambda>k. jsLe r (cumulative rd ws (Suc k))) [0..<length ws]")
  case None
  then have no: "\<forall>k<length ws. \<not> jsLe r (cumulative rd ws (Suc k))"
    by (simp add: find_upt_None)
  from assms(1) have last: "length ws - 1 < length ws" "Suc (length ws - 1) = length ws"
    by simp_all
  from no last(1) have "\<not> jsLe r (cumulative rd ws (Suc (length ws - 1)))" by blast
  with last(2) jsLt_imp_jsLe [OF assms(2)] show ?thesis by simp
next
  case (Some k)
  then show ?thesis by blast
qed

lemma map_weightOf_update:
  assumes "i < length grp" and "weightOf (grp ! i) = w"
  shows "(map weightOf grp)[i := w] = map weightOf grp"
  using assms by (simp add: list_eq_iff_nth_eq nth_list_update)

subsection \<open>Claims about \<open>AIManager.setRandomTarget\<close>\<close>

text \<open>
  C1. For a non-empty group and a draw \<open>r\<close>, the product of \<open>Math.random()\<close> and the total
  weight as the code computes it, with \<open>0 \<le> r < totalWeight\<close>, \<open>setRandomTarget\<close> sets
  the target of the action to the index of the first member, in list order, whose
  cumulative weight is greater than or equal to \<open>r\<close>. This holds for every rounding of
  the arithmetic.
\<close>

theorem setRandomTarget_first_reaching:
  assumes "grp \<noteq> []" and "r = jsMul rd rnd (groupTotalWeight rd grp)"
    and "jsLe (Fin 0) r" and "jsLt r (groupTotalWeight rd grp)"
  shows "\<exists>k<length grp.
           jsLe r (cumulativeWeight rd grp k)
         \<and> (\<forall>j<k. \<not> jsLe r (cumulativeWeight rd grp j))
         \<and> setRandomTarget rd grp rnd act = act\<lparr>targetIndex := index (grp ! k)\<rparr>"
proof -
  let ?ws = "map weightOf grp"
  from assms(1) have ne: "?ws \<noteq> []" by simp
  from assms(4) have "jsLt r (cumulative rd ?ws (length ?ws))"
    by (simp add: groupTotalWeight_eq)
  from find_reaches [OF ne this]
  obtain k where k: "List.find (\<lambda>k. jsLe r (cumulative rd ?ws (Suc k))) [0..<length ?ws] = Some k"
    by blast
  then have props: "k < length grp" "jsLe r (cumulative rd ?ws (Suc k))"
    "\<forall>j<k. \<not> jsLe r (cumulative rd ?ws (Suc j))"
    by (simp_all add: find_upt_Some)
  from k assms(2) have "weightedChoice rd ?ws rnd = k"
    by (intro weightedChoice_reached) (simp add: groupTotalWeight_eq)
  with assms(1) have "setRandomTarget rd grp rnd act = act\<lparr>targetIndex := index (grp ! k)\<rparr>"
    by (simp add: setRandomTarget_choice)
  with props show ?thesis
    by (auto simp: cumulativeWeight_def)
qed

theorem setRandomTarget_first_reaching_witness:
  "[\<lparr>tgr = Some (Fin 4), index = 10\<rparr>, \<lparr>tgr = Some (Fin 1), index = 11\<rparr>] \<noteq> []
   \<and> groupTotalWeight roundToInt
        [\<lparr>tgr = Some (Fin 4), index = 10\<rparr>, \<lparr>tgr = Some (Fin 1), index = 11\<rparr>] = Fin 5
   \<and> jsMul roundToInt (Fin (13 / 16)) (Fin 5) = Fin 4
   \<and> jsLe (Fin 0) (Fin 4)
   \<and> jsLt (Fin 4) (Fin 5)
   \<and> jsLe (Fin 4) (cumulativeWeight roundToInt
        [\<lparr>tgr = Some (Fin 4), index = 10\<rparr>, \<lparr>tgr = Some (Fin 1), index = 11\<rparr>] 0)
   \<and> setRandomTarget roundToInt
        [\<lparr>tgr = Some (Fin 4), index = 10\<rparr>, \<lparr>tgr = Some (Fin 1), index = 11\<rparr>]
        (Fin (13 / 16)) \<lparr>targetIndex = - 1\<rparr> = \<lparr>targetIndex = 10\<rparr>
   \<and> setRandomTarget Fin
        [\<lparr>tgr = Some (Fin 4), index = 10\<rparr>, \<lparr>tgr = Some (Fin 1), index = 11\<rparr>]
        (Fin (13 / 16)) \<lparr>targetIndex = - 1\<rparr> = \<lparr>targetIndex = 11\<rparr>"
proof -
  let ?g = "[\<lparr>tgr = Some (Fin 4), index = 10\<rparr>, \<lparr>tgr = Some (Fin 1), index = 11\<rparr>]"
  have tot: "groupTotalWeight roundToInt ?g = Fin 5"
    by (simp add: groupTotalWeight_def weightOf_def roundToInt_def)
  have r: "jsMul roundToInt (Fin (13 / 16)) (Fin 5) = Fin 4"
    by (simp add: roundToInt_def)
  have c0: "cumulativeWeight roundToInt ?g 0 = Fin 4"
    by (simp add: cumulativeWeight_def cumulative_def weightOf_def roundToInt_def)
  have h1: "?g \<noteq> []" by simp
  have h2: "Fin 4 = jsMul roundToInt (Fin (13 / 16)) (groupTotalWeight roundToInt ?g)"
    by (simp only: tot r)
  have h3: "jsLe (Fin 0) (Fin 4)" by simp
  have h4: "jsLt (Fin 4) (Fin 5)" by simp
  have h4': "jsLt (Fin 4) (groupTotalWeight roundToInt ?g)" by (simp only: tot h4)
  from setRandomTarget_first_reaching [OF h1 h2 h3 h4', of "\<lparr>targetIndex = - 1\<rparr>"]
  obtain k where k: "k < length ?g" "\<forall>j<k. \<not> jsLe (Fin 4) (cumulativeWeight roundToInt ?g j)"
    and res: "setRandomTarget roundToInt ?g (Fin (13 / 16)) \<lparr>targetIndex = - 1\<rparr>
              = \<lparr>targetIndex = - 1\<rparr>\<lparr>targetIndex := index (?g ! k)\<rparr>"
    by blast
  have "k = 0"
  proof (rule ccontr)
    assume "k \<noteq> 0"
    then have "0 < k" by simp
    with k(2) have "\<not> jsLe (Fin 4) (cumulativeWeight roundToInt ?g 0)" by blast
    then show False by (simp add: c0)
  qed
  with res have rounded:
    "setRandomTarget roundToInt ?g (Fin (13 / 16)) \<lparr>targetIndex = - 1\<rparr> = \<lparr>targetIndex = 10\<rparr>"
    by simp
  have l0: "jsLe (Fin 4) (cumulativeWeight roundToInt ?g 0)" by (simp add: c0)
  have exact: "setRandomTarget Fin ?g (Fin (13 / 16)) \<lparr>targetIndex = - 1\<rparr> = \<lparr>targetIndex = 11\<rparr>"
    by (simp add: setRandomTarget_def weightOf_def selectLoop.simps setTarget_def)
  from h1 tot r h3 h4 l0 rounded exact show ?thesis by (intro conjI)
qed

text \<open>
  C2. When the group is non-empty, every weight is non-negative, the total weight is
  positive and the draw \<open>r\<close> satisfies \<open>0 \<le> r < totalWeight\<close>, the accumulation loop
  selects a member of the group: it never runs to its end, so the fallback statement after
  the loop is not reached. This holds in exact arithmetic, the rounding \<open>Fin\<close>, and for
  every other rounding.
\<close>

theorem selectLoop_never_falls_back:
  assumes "grp \<noteq> []" and "\<forall>t\<in>set grp. jsLe (Fin 0) (weightOf t)"
    and "jsLt (Fin 0) (groupTotalWeight rd grp)" and "jsLe (Fin 0) r"
    and "jsLt r (groupTotalWeight rd grp)"
  shows "\<exists>k<length grp. selectLoop rd (length grp) (groupWeights rd grp) r 0 (Fin 0) = Some k"
proof -
  let ?ws = "map weightOf grp"
  from assms(1) have ne: "?ws \<noteq> []" by simp
  from assms(5) have "jsLt r (cumulative rd ?ws (length ?ws))"
    by (simp add: groupTotalWeight_eq)
  from find_reaches [OF ne this]
  obtain k where k: "List.find (\<lambda>k. jsLe r (cumulative rd ?ws (Suc k))) [0..<length ?ws] = Some k"
    by blast
  then have lt: "k < length grp" by (simp add: find_upt_Some)
  have "selectLoop rd (length grp) ?ws r 0 (Fin 0)
      = List.find (\<lambda>k. jsLe r (cumulative rd ?ws (Suc k))) [0..<length grp]"
    by (rule selectLoop_find) (simp_all add: cumulative_def)
  with k lt show ?thesis by (simp add: groupWeights_eq)
qed

theorem selectLoop_never_falls_back_witness:
  "[\<lparr>tgr = Some (Fin 3), index = 4\<rparr>, \<lparr>tgr = Some (Fin (1 / 2)), index = 5\<rparr>] \<noteq> []
   \<and> jsLe (Fin 0) (weightOf \<lparr>tgr = Some (Fin 3), index = 4\<rparr>)
   \<and> jsLe (Fin 0) (weightOf \<lparr>tgr = Some (Fin (1 / 2)), index = 5\<rparr>)
   \<and> jsLt (Fin 0) (groupTotalWeight Fin
        [\<lparr>tgr = Some (Fin 3), index = 4\<rparr>, \<lparr>tgr = Some (Fin (1 / 2)), index = 5\<rparr>])
   \<and> jsLe (Fin 0) (Fin (13 / 4))
   \<and> jsLt (Fin (13 / 4)) (groupTotalWeight Fin
        [\<lparr>tgr = Some (Fin 3), index = 4\<rparr>, \<lparr>tgr = Some (Fin (1 / 2)), index = 5\<rparr>])
   \<and> (\<exists>k<length [\<lparr>tgr = Some (Fin 3), index = 4\<rparr>, \<lparr>tgr = Some (Fin (1 / 2)), index = 5\<rparr>].
        selectLoop Fin
          (length [\<lparr>tgr = Some (Fin 3), index = 4\<rparr>, \<lparr>tgr = Some (Fin (1 / 2)), index = 5\<rparr>])
          (groupWeights Fin
             [\<lparr>tgr = Some (Fin 3), index = 4\<rparr>, \<lparr>tgr = Some (Fin (1 / 2)), index = 5\<rparr>])
          (Fin (13 / 4)) 0 (Fin 0) = Some k)
   \<and> selectLoop Fin
        (length [\<lparr>tgr = Some (Fin 3), index = 4\<rparr>, \<lparr>tgr = Some (Fin (1 / 2)), index = 5\<rparr>])
        (groupWeights Fin
           [\<lparr>tgr = Some (Fin 3), index = 4\<rparr>, \<lparr>tgr = Some (Fin (1 / 2)), index = 5\<rparr>])
        (Fin (13 / 4)) 0 (Fin 0) = Some 1"
proof -
  let ?g = "[\<lparr>tgr = Some (Fin 3), index = 4\<rparr>, \<lparr>tgr = Some (Fin (1 / 2)), index = 5\<rparr>]"
  have tot: "groupTotalWeight Fin ?g = Fin (7 / 2)"
    by (simp add: groupTotalWeight_def weightOf_def)
  have w1: "jsLe (Fin 0) (weightOf \<lparr>tgr = Some (Fin 3), index = 4\<rparr>)"
    and w2: "jsLe (Fin 0) (weightOf \<lparr>tgr = Some (Fin (1 / 2)), index = 5\<rparr>)"
    by (simp_all add: weightOf_def)
  have h1: "?g \<noteq> []" by simp
  have h2: "\<forall>t\<in>set ?g. jsLe (Fin 0) (weightOf t)" using w1 w2 by simp
  have h3: "jsLt (Fin 0) (groupTotalWeight Fin ?g)" by (simp add: tot)
  have h4: "jsLe (Fin 0) (Fin (13 / 4))" by simp
  have h5: "jsLt (Fin (13 / 4)) (groupTotalWeight Fin ?g)" by (simp add: tot)
  have direct: "selectLoop Fin (length ?g) (groupWeights Fin ?g) (Fin (13 / 4)) 0 (Fin 0) = Some 1"
    by (simp add: groupWeights_def weightOf_def selectLoop.simps)
  note selectLoop_never_falls_back [OF h1 h2 h3 h4 h5]
  with h1 w1 w2 h3 h4 h5 direct show ?thesis by (intro conjI)
qed

text \<open>
  C3. For a non-empty group, the accumulation loop runs to its end without selecting a
  member exactly when no cumulative weight reaches the draw, and then the target of the
  action is set to the index of the first member of the group.
\<close>

theorem setRandomTarget_fallback:
  assumes "grp \<noteq> []" and "r = jsMul rd rnd (groupTotalWeight rd grp)"
  shows "(selectLoop rd (length grp) (groupWeights rd grp) r 0 (Fin 0) = None
            \<longleftrightarrow> (\<forall>k<length grp. \<not> jsLe r (cumulativeWeight rd grp k)))
       \<and> ((\<forall>k<length grp. \<not> jsLe r (cumulativeWeight rd grp k))
            \<longrightarrow> setRandomTarget rd grp rnd act = act\<lparr>targetIndex := index (grp ! 0)\<rparr>)"
proof -
  let ?ws = "map weightOf grp"
  have "selectLoop rd (length grp) ?ws r 0 (Fin 0)
      = List.find (\<lambda>k. jsLe r (cumulative rd ?ws (Suc k))) [0..<length grp]"
    by (rule selectLoop_find) (simp_all add: cumulative_def)
  then have iff: "selectLoop rd (length grp) (groupWeights rd grp) r 0 (Fin 0) = None
            \<longleftrightarrow> (\<forall>k<length grp. \<not> jsLe r (cumulativeWeight rd grp k))"
    by (simp add: groupWeights_eq find_upt_None cumulativeWeight_def)
  have fb: "setRandomTarget rd grp rnd act = act\<lparr>targetIndex := index (grp ! 0)\<rparr>"
    if no: "\<forall>k<length grp. \<not> jsLe r (cumulativeWeight rd grp k)"
  proof -
    from no assms(2) have "weightedChoice rd ?ws rnd = 0"
      by (intro weightedChoice_fallback) (simp add: groupTotalWeight_eq cumulativeWeight_def)
    with assms(1) show ?thesis by (simp add: setRandomTarget_choice)
  qed
  from iff fb show ?thesis by blast
qed

theorem setRandomTarget_fallback_witness:
  "[\<lparr>tgr = Some (Fin (- 1)), index = 7\<rparr>, \<lparr>tgr = Some (Fin (- 2)), index = 8\<rparr>] \<noteq> []
   \<and> jsMul Fin (Fin (1 / 4)) (groupTotalWeight Fin
        [\<lparr>tgr = Some (Fin (- 1)), index = 7\<rparr>, \<lparr>tgr = Some (Fin (- 2)), index = 8\<rparr>])
       = Fin (- 3 / 4)
   \<and> \<not> jsLe (Fin (- 3 / 4)) (cumulativeWeight Fin
        [\<lparr>tgr = Some (Fin (- 1)), index = 7\<rparr>, \<lparr>tgr = Some (Fin (- 2)), index = 8\<rparr>] 0)
   \<and> \<not> jsLe (Fin (- 3 / 4)) (cumulativeWeight Fin
        [\<lparr>tgr = Some (Fin (- 1)), index = 7\<rparr>, \<lparr>tgr = Some (Fin (- 2)), index = 8\<rparr>] 1)
   \<and> selectLoop Fin
        (length [\<lparr>tgr = Some (Fin (- 1)), index = 7\<rparr>, \<lparr>tgr = Some (Fin (- 2)), index = 8\<rparr>])
        (groupWeights Fin
           [\<lparr>tgr = Some (Fin (- 1)), index = 7\<rparr>, \<lparr>tgr = Some (Fin (- 2)), index = 8\<rparr>])
        (Fin (- 3 / 4)) 0 (Fin 0) = None
   \<and> setRandomTarget Fin
        [\<lparr>tgr = Some (Fin (- 1)), index = 7\<rparr>, \<lparr>tgr = Some (Fin (- 2)), index = 8\<rparr>]
        (Fin (1 / 4)) \<lparr>targetIndex = 3\<rparr> = \<lparr>targetIndex = 7\<rparr>
   \<and> groupTotalWeight Fin [\<lparr>tgr = Some PInf, index = 5\<rparr>, \<lparr>tgr = Some NInf, index = 6\<rparr>] = NaN
   \<and> setRandomTarget Fin [\<lparr>tgr = Some PInf, index = 5\<rparr>, \<lparr>tgr = Some NInf, index = 6\<rparr>]
        (Fin (1 / 4)) \<lparr>targetIndex = 3\<rparr> = \<lparr>targetIndex = 5\<rparr>"
proof -
  let ?g = "[\<lparr>tgr = Some (Fin (- 1)), index = 7\<rparr>, \<lparr>tgr = Some (Fin (- 2)), index = 8\<rparr>]"
  let ?n = "[\<lparr>tgr = Some PInf, index = 5\<rparr>, \<lparr>tgr = Some NInf, index = 6\<rparr>]"
  have h1: "?g \<noteq> []" by simp
  have tot: "groupTotalWeight Fin ?g = Fin (- 3)"
    by (simp add: groupTotalWeight_def weightOf_def)
  have r: "jsMul Fin (Fin (1 / 4)) (groupTotalWeight Fin ?g) = Fin (- 3 / 4)"
    by (simp add: tot)
  have c0: "\<not> jsLe (Fin (- 3 / 4)) (cumulativeWeight Fin ?g 0)"
    and c1: "\<not> jsLe (Fin (- 3 / 4)) (cumulativeWeight Fin ?g 1)"
    by (simp_all add: cumulativeWeight_def cumulative_def weightOf_def)
  have all: "\<forall>k<length ?g. \<not> jsLe (Fin (- 3 / 4)) (cumulativeWeight Fin ?g k)"
  proof (intro allI impI)
    fix k assume "k < length ?g"
    then have "k = 0 \<or> k = 1" by auto
    with c0 c1 show "\<not> jsLe (Fin (- 3 / 4)) (cumulativeWeight Fin ?g k)" by auto
  qed
  note inst = setRandomTarget_fallback [OF h1 r [symmetric], of "\<lparr>targetIndex = 3\<rparr>"]
  from inst all
  have loop: "selectLoop Fin (length ?g) (groupWeights Fin ?g) (Fin (- 3 / 4)) 0 (Fin 0) = None"
    by blast
  from inst all have "setRandomTarget Fin ?g (Fin (1 / 4)) \<lparr>targetIndex = 3\<rparr>
      = \<lparr>targetIndex = 3\<rparr>\<lparr>targetIndex := index (?g ! 0)\<rparr>"
    by blast
  then have res: "setRandomTarget Fin ?g (Fin (1 / 4)) \<lparr>targetIndex = 3\<rparr> = \<lparr>targetIndex = 7\<rparr>"
    by simp
  have ntot: "groupTotalWeight Fin ?n = NaN"
    by (simp add: groupTotalWeight_def weightOf_def)
  have nres: "setRandomTarget Fin ?n (Fin (1 / 4)) \<lparr>targetIndex = 3\<rparr> = \<lparr>targetIndex = 5\<rparr>"
    by (simp add: setRandomTarget_def weightOf_def selectLoop.simps setTarget_def)
  from h1 r c0 c1 loop res ntot nres show ?thesis by (intro conjI)
qed

text \<open>
  C4. A member of the group whose \<open>tgr\<close> is undefined has the weight 1.0 in the array of
  weights, and \<open>setRandomTarget\<close> is the weighted selection in which this member has the
  weight 1.0: in the total weight, which is the sum of the weights with 1.0 at its
  position, and in the accumulation walk.
\<close>

theorem undefined_tgr_weight_one:
  assumes "i < length grp" and "tgr (grp ! i) = None"
  shows "groupWeights rd grp ! i = Fin 1
       \<and> groupTotalWeight rd grp = cumulative rd ((map weightOf grp)[i := Fin 1]) (length grp)
       \<and> setRandomTarget rd grp rnd act
         = act\<lparr>targetIndex :=
                 index (grp ! weightedChoice rd ((map weightOf grp)[i := Fin 1]) rnd)\<rparr>"
proof -
  from assms(2) have w: "weightOf (grp ! i) = Fin 1" by (simp add: weightOf_def)
  note upd = map_weightOf_update [OF assms(1) w]
  from assms(1) have ne: "grp \<noteq> []" by auto
  from assms(1) w have "groupWeights rd grp ! i = Fin 1" by (simp add: groupWeights_eq)
  moreover have "groupTotalWeight rd grp
      = cumulative rd ((map weightOf grp)[i := Fin 1]) (length grp)"
    by (simp only: upd groupTotalWeight_eq)
  moreover have "setRandomTarget rd grp rnd act
      = act\<lparr>targetIndex := index (grp ! weightedChoice rd ((map weightOf grp)[i := Fin 1]) rnd)\<rparr>"
    by (simp only: upd setRandomTarget_choice [OF ne])
  ultimately show ?thesis by (intro conjI)
qed

theorem undefined_tgr_weight_one_witness:
  "Suc 0 < length [\<lparr>tgr = Some (Fin 5), index = 0\<rparr>, \<lparr>tgr = None, index = 1\<rparr>,
                    \<lparr>tgr = Some (Fin 3), index = 2\<rparr>]
   \<and> tgr ([\<lparr>tgr = Some (Fin 5), index = 0\<rparr>, \<lparr>tgr = None, index = 1\<rparr>,
            \<lparr>tgr = Some (Fin 3), index = 2\<rparr>] ! Suc 0) = None
   \<and> groupWeights Fin [\<lparr>tgr = Some (Fin 5), index = 0\<rparr>, \<lparr>tgr = None, index = 1\<rparr>,
                        \<lparr>tgr = Some (Fin 3), index = 2\<rparr>] ! Suc 0 = Fin 1
   \<and> groupTotalWeight Fin [\<lparr>tgr = Some (Fin 5), index = 0\<rparr>, \<lparr>tgr = None, index = 1\<rparr>,
                            \<lparr>tgr = Some (Fin 3), index = 2\<rparr>] = Fin 9
   \<and> setRandomTarget Fin [\<lparr>tgr = Some (Fin 5), index = 0\<rparr>, \<lparr>tgr = None, index = 1\<rparr>,
                           \<lparr>tgr = Some (Fin 3), index = 2\<rparr>]
        (Fin (5 / 9)) \<lparr>targetIndex = - 1\<rparr> = \<lparr>targetIndex = 0\<rparr>
   \<and> setRandomTarget Fin [\<lparr>tgr = Some (Fin 5), index = 0\<rparr>, \<lparr>tgr = None, index = 1\<rparr>,
                           \<lparr>tgr = Some (Fin 3), index = 2\<rparr>]
        (Fin (6 / 9)) \<lparr>targetIndex = - 1\<rparr> = \<lparr>targetIndex = 1\<rparr>
   \<and> setRandomTarget Fin [\<lparr>tgr = Some (Fin 5), index = 0\<rparr>, \<lparr>tgr = None, index = 1\<rparr>,
                           \<lparr>tgr = Some (Fin 3), index = 2\<rparr>]
        (Fin (7 / 9)) \<lparr>targetIndex = - 1\<rparr> = \<lparr>targetIndex = 2\<rparr>"
proof -
  let ?g = "[\<lparr>tgr = Some (Fin 5), index = 0\<rparr>, \<lparr>tgr = None, index = 1\<rparr>,
             \<lparr>tgr = Some (Fin 3), index = 2\<rparr>]"
  let ?a = "\<lparr>targetIndex = - 1\<rparr>"
  have h1: "Suc 0 < length ?g" by simp
  have h2: "tgr (?g ! Suc 0) = None" by simp
  have ws: "(map weightOf ?g)[Suc 0 := Fin 1] = [Fin 5, Fin 1, Fin 3]"
    by (simp add: weightOf_def)
  have upt: "[0..<3] = [0, 1, 2]" by (simp add: upt_rec)
  have ch: "weightedChoice Fin [Fin 5, Fin 1, Fin 3] (Fin (5 / 9)) = 0"
    "weightedChoice Fin [Fin 5, Fin 1, Fin 3] (Fin (6 / 9)) = 1"
    "weightedChoice Fin [Fin 5, Fin 1, Fin 3] (Fin (7 / 9)) = 2"
    by (simp_all add: weightedChoice_def cumulative_def upt)
  have ct: "cumulative Fin [Fin 5, Fin 1, Fin 3] (length ?g) = Fin 9"
    by (simp add: cumulative_def)
  note inst = undefined_tgr_weight_one [OF h1 h2, of Fin]
  from inst have w: "groupWeights Fin ?g ! Suc 0 = Fin 1" by blast
  from inst have "groupTotalWeight Fin ?g
      = cumulative Fin ((map weightOf ?g)[Suc 0 := Fin 1]) (length ?g)" by blast
  then have t: "groupTotalWeight Fin ?g = Fin 9" by (simp only: ws ct)
  from inst [of "Fin (5 / 9)" ?a]
  have "setRandomTarget Fin ?g (Fin (5 / 9)) ?a
      = ?a\<lparr>targetIndex := index (?g ! weightedChoice Fin ((map weightOf ?g)[Suc 0 := Fin 1])
             (Fin (5 / 9)))\<rparr>" by blast
  then have r1: "setRandomTarget Fin ?g (Fin (5 / 9)) ?a = \<lparr>targetIndex = 0\<rparr>"
    by (simp only: ws ch) simp
  from inst [of "Fin (6 / 9)" ?a]
  have "setRandomTarget Fin ?g (Fin (6 / 9)) ?a
      = ?a\<lparr>targetIndex := index (?g ! weightedChoice Fin ((map weightOf ?g)[Suc 0 := Fin 1])
             (Fin (6 / 9)))\<rparr>" by blast
  then have r2: "setRandomTarget Fin ?g (Fin (6 / 9)) ?a = \<lparr>targetIndex = 1\<rparr>"
    by (simp only: ws ch) simp
  from inst [of "Fin (7 / 9)" ?a]
  have "setRandomTarget Fin ?g (Fin (7 / 9)) ?a
      = ?a\<lparr>targetIndex := index (?g ! weightedChoice Fin ((map weightOf ?g)[Suc 0 := Fin 1])
             (Fin (7 / 9)))\<rparr>" by blast
  then have r3: "setRandomTarget Fin ?g (Fin (7 / 9)) ?a = \<lparr>targetIndex = 2\<rparr>"
    by (simp only: ws ch) simp
  from h1 h2 w t r1 r2 r3 show ?thesis by (intro conjI)
qed

text \<open>
  C5. A member of the group whose \<open>tgr\<close> is exactly 0 has the weight 1.0 in the array of
  weights, and \<open>setRandomTarget\<close> is the weighted selection in which this member has the
  weight 1.0, in the total weight and in the walk: the member is not excluded. It is
  selected whenever the draw lies above the cumulative weights of the members before it
  and not above the cumulative weight before it plus 1.0.
\<close>

theorem zero_tgr_weight_one:
  assumes "i < length grp" and "tgr (grp ! i) = Some (Fin 0)"
    and "r = jsMul rd rnd (groupTotalWeight rd grp)"
  shows "groupWeights rd grp ! i = Fin 1
       \<and> groupTotalWeight rd grp = cumulative rd ((map weightOf grp)[i := Fin 1]) (length grp)
       \<and> setRandomTarget rd grp rnd act
         = act\<lparr>targetIndex :=
                 index (grp ! weightedChoice rd ((map weightOf grp)[i := Fin 1]) rnd)\<rparr>
       \<and> ((\<forall>j<i. \<not> jsLe r (cumulativeWeight rd grp j))
            \<and> jsLe r (jsAdd rd (cumulative rd (map weightOf grp) i) (Fin 1))
          \<longrightarrow> setRandomTarget rd grp rnd act = act\<lparr>targetIndex := index (grp ! i)\<rparr>)"
proof -
  let ?ws = "map weightOf grp"
  from assms(2) have w: "weightOf (grp ! i) = Fin 1" by (simp add: weightOf_def)
  note upd = map_weightOf_update [OF assms(1) w]
  from assms(1) have ne: "grp \<noteq> []" by auto
  from assms(1) w have c1: "groupWeights rd grp ! i = Fin 1" by (simp add: groupWeights_eq)
  have c2: "groupTotalWeight rd grp
      = cumulative rd ((map weightOf grp)[i := Fin 1]) (length grp)"
    by (simp only: upd groupTotalWeight_eq)
  have c3: "setRandomTarget rd grp rnd act
      = act\<lparr>targetIndex := index (grp ! weightedChoice rd ((map weightOf grp)[i := Fin 1]) rnd)\<rparr>"
    by (simp only: upd setRandomTarget_choice [OF ne])
  have c4: "setRandomTarget rd grp rnd act = act\<lparr>targetIndex := index (grp ! i)\<rparr>"
    if before: "\<forall>j<i. \<not> jsLe r (cumulativeWeight rd grp j)"
      and slot: "jsLe r (jsAdd rd (cumulative rd ?ws i) (Fin 1))"
  proof -
    from assms(1) w have "cumulative rd ?ws (Suc i) = jsAdd rd (cumulative rd ?ws i) (Fin 1)"
      by (simp add: cumulative_Suc)
    with slot have here: "jsLe r (cumulative rd ?ws (Suc i))" by simp
    from before have "\<forall>j<i. \<not> jsLe r (cumulative rd ?ws (Suc j))"
      by (simp add: cumulativeWeight_def)
    with here assms(1)
    have "List.find (\<lambda>k. jsLe r (cumulative rd ?ws (Suc k))) [0..<length ?ws] = Some i"
      by (simp add: find_upt_Some)
    with assms(3) have "weightedChoice rd ?ws rnd = i"
      by (intro weightedChoice_reached) (simp add: groupTotalWeight_eq)
    with ne show ?thesis by (simp add: setRandomTarget_choice)
  qed
  from c1 c2 c3 c4 show ?thesis by blast
qed

theorem zero_tgr_weight_one_witness:
  "Suc 0 < length [\<lparr>tgr = Some (Fin 2), index = 5\<rparr>, \<lparr>tgr = Some (Fin 0), index = 6\<rparr>,
                    \<lparr>tgr = Some (Fin 3), index = 7\<rparr>]
   \<and> tgr ([\<lparr>tgr = Some (Fin 2), index = 5\<rparr>, \<lparr>tgr = Some (Fin 0), index = 6\<rparr>,
            \<lparr>tgr = Some (Fin 3), index = 7\<rparr>] ! Suc 0) = Some (Fin 0)
   \<and> groupTotalWeight Fin [\<lparr>tgr = Some (Fin 2), index = 5\<rparr>, \<lparr>tgr = Some (Fin 0), index = 6\<rparr>,
                            \<lparr>tgr = Some (Fin 3), index = 7\<rparr>] = Fin 6
   \<and> jsMul Fin (Fin (9 / 20)) (Fin 6) = Fin (27 / 10)
   \<and> \<not> jsLe (Fin (27 / 10))
          (cumulativeWeight Fin [\<lparr>tgr = Some (Fin 2), index = 5\<rparr>, \<lparr>tgr = Some (Fin 0), index = 6\<rparr>,
                                 \<lparr>tgr = Some (Fin 3), index = 7\<rparr>] 0)
   \<and> jsLe (Fin (27 / 10))
        (jsAdd Fin (cumulative Fin (map weightOf
           [\<lparr>tgr = Some (Fin 2), index = 5\<rparr>, \<lparr>tgr = Some (Fin 0), index = 6\<rparr>,
            \<lparr>tgr = Some (Fin 3), index = 7\<rparr>]) (Suc 0)) (Fin 1))
   \<and> groupWeights Fin [\<lparr>tgr = Some (Fin 2), index = 5\<rparr>, \<lparr>tgr = Some (Fin 0), index = 6\<rparr>,
                        \<lparr>tgr = Some (Fin 3), index = 7\<rparr>] ! Suc 0 = Fin 1
   \<and> setRandomTarget Fin [\<lparr>tgr = Some (Fin 2), index = 5\<rparr>, \<lparr>tgr = Some (Fin 0), index = 6\<rparr>,
                           \<lparr>tgr = Some (Fin 3), index = 7\<rparr>]
        (Fin (9 / 20)) \<lparr>targetIndex = - 1\<rparr> = \<lparr>targetIndex = 6\<rparr>"
proof -
  let ?g = "[\<lparr>tgr = Some (Fin 2), index = 5\<rparr>, \<lparr>tgr = Some (Fin 0), index = 6\<rparr>,
             \<lparr>tgr = Some (Fin 3), index = 7\<rparr>]"
  let ?a = "\<lparr>targetIndex = - 1\<rparr>"
  have h1: "Suc 0 < length ?g" by simp
  have h2: "tgr (?g ! Suc 0) = Some (Fin 0)" by simp
  have tot: "groupTotalWeight Fin ?g = Fin 6"
    by (simp add: groupTotalWeight_def weightOf_def)
  have r: "jsMul Fin (Fin (9 / 20)) (Fin 6) = Fin (27 / 10)" by simp
  have h3: "Fin (27 / 10) = jsMul Fin (Fin (9 / 20)) (groupTotalWeight Fin ?g)"
    by (simp only: tot r)
  have b0: "\<not> jsLe (Fin (27 / 10)) (cumulativeWeight Fin ?g 0)"
    by (simp add: cumulativeWeight_def cumulative_def weightOf_def)
  have before: "\<forall>j<Suc 0. \<not> jsLe (Fin (27 / 10)) (cumulativeWeight Fin ?g j)"
    using b0 by simp
  have slot: "jsLe (Fin (27 / 10)) (jsAdd Fin (cumulative Fin (map weightOf ?g) (Suc 0)) (Fin 1))"
    by (simp add: cumulative_def weightOf_def)
  note inst = zero_tgr_weight_one [OF h1 h2 h3, of ?a]
  from inst have w: "groupWeights Fin ?g ! Suc 0 = Fin 1" by blast
  from inst before slot
  have "setRandomTarget Fin ?g (Fin (9 / 20)) ?a = ?a\<lparr>targetIndex := index (?g ! Suc 0)\<rparr>"
    by blast
  then have res: "setRandomTarget Fin ?g (Fin (9 / 20)) ?a = \<lparr>targetIndex = 6\<rparr>" by simp
  from h1 h2 tot r b0 slot w res show ?thesis by (intro conjI)
qed

text \<open>
  C9. For the empty group \<open>setRandomTarget\<close> returns before any call of \<open>setTarget\<close>: the
  action, with every member it has, is the one it was.
\<close>

theorem setRandomTarget_empty_group:
  "setRandomTarget rd [] rnd act = act"
  by (simp add: setRandomTarget_def)


section \<open>Properties of the actor info window\<close>

subsection \<open>Word wrapping\<close>

lemma wrapLoop_step_over:
  assumes "m (if cur = [] then wd else cur @ '' '' @ wd) > maxWidth"
  shows "wrapLoop m maxWidth (wd # wds) lines cur =
           (if length (lines @ [cur]) \<ge> 3 then (lines @ [cur], wd)
            else wrapLoop m maxWidth wds (lines @ [cur]) wd)"
  using assms by (cases "cur = []") (simp_all add: Let_def)

lemma wrapLoop_step_fits:
  assumes "\<not> m (if cur = [] then wd else cur @ '' '' @ wd) > maxWidth"
  shows "wrapLoop m maxWidth (wd # wds) lines cur =
           wrapLoop m maxWidth wds lines (if cur = [] then wd else cur @ '' '' @ wd)"
  using assms by (cases "cur = []") (simp_all add: Let_def)

text \<open>
  With fewer than three lines pushed, the loop followed by the final push yields the
  first three of the lines pushed so far and the lines of the greedy wrapping of the
  words that are left.
\<close>

lemma wrapLoop_greedy:
  assumes "length lines < 3"
  shows "(case wrapLoop m maxWidth wds lines cur of
            (ls, c) \<Rightarrow> if c \<noteq> [] \<and> length ls < 3 then ls @ [c] else ls)
         = take 3 (lines @ greedyWrapSpec m maxWidth wds cur)"
  using assms
proof (induction wds arbitrary: lines cur)
  case Nil
  then show ?case by simp
next
  case (Cons wd wds)
  let ?ext = "if cur = [] then wd else cur @ '' '' @ wd"
  show ?case
  proof (cases "m ?ext > maxWidth")
    case over: True
    then have g: "greedyWrapSpec m maxWidth (wd # wds) cur = cur # greedyWrapSpec m maxWidth wds wd"
      by (simp add: Let_def)
    note step = wrapLoop_step_over
      [where lines = lines and wds = wds and m = m and cur = cur and wd = wd
         and maxWidth = maxWidth, OF over]
    show ?thesis
    proof (cases "length (lines @ [cur]) \<ge> 3")
      case True
      with Cons.prems have "length lines = 2" by simp
      with True show ?thesis
        unfolding step g by simp
    next
      case False
      then have "length (lines @ [cur]) < 3" by simp
      from Cons.IH [OF this, of wd] False show ?thesis
        unfolding step g by simp
    qed
  next
    case False
    then have g: "greedyWrapSpec m maxWidth (wd # wds) cur = greedyWrapSpec m maxWidth wds ?ext"
      by (simp add: Let_def)
    note step = wrapLoop_step_fits
      [where lines = lines and wds = wds and m = m and cur = cur and wd = wd
         and maxWidth = maxWidth, OF False]
    from Cons.IH [OF Cons.prems, of ?ext] show ?thesis
      unfolding step g by simp
  qed
qed

lemma wrapText_eq: "wrapText m maxWidth d = take 3 (greedyWrapSpec m maxWidth (splitSpace d) [])"
  using wrapLoop_greedy [of "[]" m maxWidth "splitSpace d" "[]"]
  by (simp add: wrapText_def split: prod.splits)

lemma wrapText_length: "length (wrapText m maxWidth d) \<le> 3"
  by (simp add: wrapText_eq)

lemma splitSpace_ne: "splitSpace d \<noteq> []"
  by (induction d) (auto split: list.splits)

lemma joinWith_cons_char: "joinWith sep ((c # x) # xs) = c # joinWith sep (x # xs)"
  by (cases xs) simp_all

lemma join_split: "joinWith '' '' (splitSpace d) = d"
proof (induction d)
  case Nil
  show ?case by simp
next
  case (Cons c cs)
  obtain wd wds where sp: "splitSpace cs = wd # wds"
    using splitSpace_ne [of cs] by (cases "splitSpace cs") auto
  show ?case
  proof (cases "c = CHR '' ''")
    case True
    with sp Cons.IH show ?thesis by simp
  next
    case False
    with sp Cons.IH show ?thesis by (simp add: joinWith_cons_char)
  qed
qed

lemma split_no_space: "wd \<in> set (splitSpace d) \<Longrightarrow> CHR '' '' \<notin> set wd"
proof (induction d arbitrary: wd)
  case Nil
  then show ?case by simp
next
  case (Cons c cs)
  obtain x xs where sp: "splitSpace cs = x # xs"
    using splitSpace_ne [of cs] by (cases "splitSpace cs") auto
  from Cons sp show ?case
    by (cases "c = CHR '' ''") auto
qed

subsection \<open>What the drawing methods draw\<close>

lemmas window_ops =
  drawText_def drawIcon_def changeTextColor_def setFontSize_def setFontBold_def clear_def

text \<open>
  The drawing loop appends one text for each of the first three lines, one line height
  apart, and changes nothing else.
\<close>

lemma drawLines_eq:
  "drawLines lines l tx ly mw lh w =
     w\<lparr>contents := (contents w)\<lparr>drawn := drawn (contents w) @
        map (\<lambda>i. DrawText (fontSize (contents w)) (fontBold (contents w)) (textColor (contents w))
                   (lines ! i) tx (ly + real (i - l) * lh) mw lh)
          [l..<min (length lines) 3]\<rparr>\<rparr>"
proof (induction lines l tx ly mw lh w rule: drawLines.induct)
  case (1 lines l tx lineY maxWidth lineHeight w)
  let ?N = "min (length lines) 3"
  show ?case
  proof (cases "l < ?N")
    case False
    then have "?N \<le> l" by (rule leI)
    then have e: "[l..<?N] = []" by (simp only: upt_eq_Nil_conv) simp
    have "drawLines lines l tx lineY maxWidth lineHeight w = w"
      by (subst drawLines.simps) (simp only: False if_False)
    then show ?thesis
      by (simp only: e list.map append_Nil2) simp
  next
    case True
    have shift: "map (\<lambda>i. DrawText fs b c (lines ! i) tx (lineY + lineHeight + real (i - Suc l) * lineHeight)
                          maxWidth lineHeight) [Suc l..<?N]
               = map (\<lambda>i. DrawText fs b c (lines ! i) tx (lineY + real (i - l) * lineHeight)
                          maxWidth lineHeight) [Suc l..<?N]" for fs b c
    proof (rule map_cong [OF refl])
      fix i assume "i \<in> set [Suc l..<?N]"
      then have "real (i - l) = real (i - Suc l) + 1" by auto
      then show "DrawText fs b c (lines ! i) tx (lineY + lineHeight + real (i - Suc l) * lineHeight)
                   maxWidth lineHeight
               = DrawText fs b c (lines ! i) tx (lineY + real (i - l) * lineHeight) maxWidth lineHeight"
        by (simp add: algebra_simps)
    qed
    from True have upt: "[l..<?N] = l # [Suc l..<?N]" by (rule upt_conv_Cons)
    show ?thesis
      apply (subst drawLines.simps)
      apply (simp only: True if_True "1.IH" [OF True])
      apply (simp only: upt list.map)
      apply (simp add: drawText_def shift)
      done
  qed
qed

lemma drawDescription_eq:
  "drawDescription h d x y wd w =
     (let fs = (if stateColumns w > 2 then 14 else 16);
          lines = wrapText (measureTextWidth h fs (fontBold (contents w))) (wd - 40) d
      in w\<lparr>contents := (contents w)\<lparr>fontSize := fs, textColor := 0,
           drawn := drawn (contents w) @
             map (\<lambda>i. DrawText fs (fontBold (contents w)) 0 (lines ! i)
                        (x + 36) (y + 15 + 12 * real i) (wd - 40) 12)
               [0..<length lines]\<rparr>\<rparr>)"
proof -
  have m: "min (length (wrapText m maxWidth d)) 3 = length (wrapText m maxWidth d)" for m maxWidth
    using wrapText_length [of m maxWidth d] by simp
  show ?thesis
    by (simp add: drawDescription_def drawLines_eq Let_def m setFontSize_def changeTextColor_def
        mult.commute)
qed

text \<open>
  With an actor set, \<open>drawState\<close> returns normally; of icons it draws exactly one, that of
  the state, at the position it is given. With a state and no actor it raises.
\<close>

lemma drawState_Some:
  assumes "actor w = Some a"
  shows "\<exists>w'. drawState h (Some s) x y wd w = Inr w'
           \<and> icons w' = icons w @ [DrawIcon (getStateIconIndex h s) x y]
           \<and> actor w' = actor w \<and> stateColumns w' = stateColumns w
           \<and> width w' = width w \<and> lastStateCount w' = lastStateCount w"
  using assms
  by (simp add: drawState_def Let_def window_ops drawDescription_eq icons_def filter_empty_conv)

lemma drawState_no_actor:
  "actor w = None \<Longrightarrow> drawState h (Some s) x y wd w = Inl TypeError"
  by (simp add: drawState_def Let_def window_ops)

text \<open>
  All that \<open>drawState\<close> draws: the icon, the name, and the lines into which it wraps the
  description when the description is not empty.
\<close>

lemma drawState_drawn:
  assumes "actor w = Some a"
  shows "\<exists>w' nm. drawState h (Some s) x y wd w = Inr w'
           \<and> drawn (contents w') = drawn (contents w) @
               [DrawIcon (getStateIconIndex h s) x y,
                DrawText (if stateColumns w > 2 then 16 else 18) True 0 nm (x + 36) y (wd - 36) 18] @
               (if getStateDescription h s = [] then []
                else lineTexts (if stateColumns w > 2 then 14 else 16) False
                       (wrapText (measureTextWidth h (if stateColumns w > 2 then 14 else 16) False)
                          (wd - 40) (getStateDescription h s)) x y wd)"
  using assms
  by (simp add: drawState_def Let_def window_ops drawDescription_eq lineTexts_def)

lemma statesLoop_icons:
  assumes "actor w = Some a"
  shows "\<exists>w'. statesLoop h sts n i x y cw rh w = Inr w'
           \<and> icons w' = icons w @
               map (\<lambda>j. DrawIcon (getStateIconIndex h (sts ! j))
                          (x + real (j mod stateColumns w) * cw)
                          (y + real (j div stateColumns w) * rh)) [i..<n]
           \<and> actor w' = actor w \<and> stateColumns w' = stateColumns w
           \<and> width w' = width w \<and> lastStateCount w' = lastStateCount w"
  using assms
proof (induction h sts n i x y cw rh w rule: statesLoop.induct)
  case (1 h sts stateCount i x y colWidth rowHeight w)
  show ?case
  proof (cases "i < stateCount")
    case False
    then have "stateCount \<le> i" by (rule leI)
    then have e: "[i..<stateCount] = []" by simp
    have "statesLoop h sts stateCount i x y colWidth rowHeight w = Inr w"
      by (subst statesLoop.simps) (simp only: False if_False)
    then show ?thesis by (simp add: e)
  next
    case True
    let ?X = "x + real (i mod stateColumns w) * colWidth"
    let ?Y = "y + real (i div stateColumns w) * rowHeight"
    from drawState_Some [OF "1.prems", of h "sts ! i" ?X ?Y "colWidth - 8"]
    obtain w1 where w1: "drawState h (Some (sts ! i)) ?X ?Y (colWidth - 8) w = Inr w1"
      and ic1: "icons w1 = icons w @ [DrawIcon (getStateIconIndex h (sts ! i)) ?X ?Y]"
      and keep: "actor w1 = actor w" "stateColumns w1 = stateColumns w"
        "width w1 = width w" "lastStateCount w1 = lastStateCount w"
      by blast
    from keep(1) "1.prems" have a1: "actor w1 = Some a" by simp
    from "1.IH" [OF True refl refl refl refl refl w1 a1]
    obtain w' where w': "statesLoop h sts stateCount (Suc i) x y colWidth rowHeight w1 = Inr w'"
      and ic': "icons w' = icons w1 @
               map (\<lambda>j. DrawIcon (getStateIconIndex h (sts ! j))
                          (x + real (j mod stateColumns w1) * colWidth)
                          (y + real (j div stateColumns w1) * rowHeight)) [Suc i..<stateCount]"
      and keep': "actor w' = actor w1" "stateColumns w' = stateColumns w1"
        "width w' = width w1" "lastStateCount w' = lastStateCount w1"
      by blast
    have run: "statesLoop h sts stateCount i x y colWidth rowHeight w = Inr w'"
      by (subst statesLoop.simps) (simp add: True Let_def w1 w')
    from True have upt: "[i..<stateCount] = i # [Suc i..<stateCount]" by (rule upt_conv_Cons)
    from run ic1 ic' keep keep' show ?thesis
      by (simp add: upt)
  qed
qed

lemma drawLine1_actor: "actor (drawLine1 h sts statX y fs w) = actor w"
  by (induction h sts statX y fs w rule: drawLine1.induct) (simp_all add: Let_def window_ops)

lemma drawLine2_actor: "actor (drawLine2 sts statX y fs w) = actor w"
  by (induction sts statX y fs w rule: drawLine2.induct) (simp_all add: Let_def window_ops)

lemma drawHeader_actor: "actor (drawHeader w) = actor w"
  by (simp add: drawHeader_def Let_def window_ops split: option.splits)

lemma drawStatsSection_actor: "actor (drawStatsSection h w) = actor w"
  by (simp add: drawStatsSection_def Let_def drawLine1_actor drawLine2_actor
      resetFontSettings_def window_ops split: option.splits)

lemma drawStatesSection_icons:
  assumes "actor w = Some a" and "sts = filterStates (states a)" and "n = length sts"
    and "C = (if n > 9 then 4 else if n > 6 then 3 else 2)"
  shows "\<exists>w'. drawStatesSection h w = Inr w'
           \<and> icons w' = icons w @
               map (\<lambda>i. DrawIcon (getStateIconIndex h (sts ! i))
                          (8 + real (i mod C) * of_int \<lfloor>(contentsWidth w - 16) / real C\<rfloor>)
                          (111 + real (i div C) * 60)) [0..<n]
           \<and> (0 < n \<longrightarrow> stateColumns w' = C)"
proof (cases "n = 0")
  case True
  with assms show ?thesis
    by (simp add: drawStatesSection_def Let_def window_ops icons_def)
next
  case False
  let ?w0 = "drawText (''STATES ('' @ numToStr h (Fin (real n)) @ '')'') (8 + 175) (85 - 2)
               (contentsWidth (changeTextColor 0 (setFontSize 24 w)) - 16) 22
               (changeTextColor 0 (setFontSize 24 w))"
  let ?w1 = "?w0\<lparr>stateColumns := C\<rparr>"
  let ?cw = "of_int \<lfloor>(contentsWidth ?w1 - 16) / real (stateColumns ?w1)\<rfloor> :: real"
  have a1: "actor ?w1 = Some a" using assms(1) by (simp add: window_ops)
  have run: "drawStatesSection h w = statesLoop h sts n 0 8 (85 + 26) ?cw 60 ?w1"
    using assms False by (simp add: drawStatesSection_def Let_def)
  from statesLoop_icons [OF a1, of h sts n 0 8 "85 + 26" ?cw 60]
  obtain w' where w': "statesLoop h sts n 0 8 (85 + 26) ?cw 60 ?w1 = Inr w'"
    and ic: "icons w' = icons ?w1 @
               map (\<lambda>j. DrawIcon (getStateIconIndex h (sts ! j))
                          (8 + real (j mod stateColumns ?w1) * ?cw)
                          (85 + 26 + real (j div stateColumns ?w1) * 60)) [0..<n]"
    and sc: "stateColumns w' = stateColumns ?w1"
    by blast
  have i1: "icons ?w1 = icons w" by (simp add: icons_def window_ops)
  have c1: "stateColumns ?w1 = C" by simp
  have cw: "contentsWidth ?w1 = contentsWidth w" by (simp add: contentsWidth_def window_ops)
  from run w' ic sc show ?thesis
    unfolding i1 c1 cw by simp
qed

text \<open>
  \<open>refresh\<close> guards every call of \<open>drawState\<close> by its test of the actor, so it never
  raises.
\<close>

lemma refresh_never_raises: "\<exists>w'. refresh h w = Inr w'"
proof (cases "actor w")
  case None
  then show ?thesis by (simp add: refresh_def)
next
  case (Some a)
  let ?w = "drawStatsSection h (drawHeader (clear w))"
  from Some have "actor ?w = Some a"
    by (simp add: drawStatsSection_actor drawHeader_actor clear_def)
  from drawStatesSection_icons [OF this refl refl refl, of h]
  obtain w' where "drawStatesSection h ?w = Inr w'" by blast
  with Some show ?thesis by (simp add: refresh_def Let_def)
qed

subsection \<open>The filter of states\<close>

lemma prefixCI_iff:
  "prefixCI p s \<longleftrightarrow> (\<exists>tag post. s = tag @ post \<and> map lowerChar tag = map lowerChar p)"
proof (induction p s rule: prefixCI.induct)
  case (1 s)
  show ?case by simp
next
  case (2 p ps)
  show ?case by simp
next
  case (3 p ps c cs)
  show ?case
  proof
    assume "prefixCI (p # ps) (c # cs)"
    with 3 obtain tag post where "cs = tag @ post" "map lowerChar tag = map lowerChar ps"
      "lowerChar c = lowerChar p" by auto
    then have "c # cs = (c # tag) @ post \<and> map lowerChar (c # tag) = map lowerChar (p # ps)"
      by simp
    then show "\<exists>tag post. c # cs = tag @ post \<and> map lowerChar tag = map lowerChar (p # ps)"
      by blast
  next
    assume "\<exists>tag post. c # cs = tag @ post \<and> map lowerChar tag = map lowerChar (p # ps)"
    then obtain tag post where t: "c # cs = tag @ post" "map lowerChar tag = map lowerChar (p # ps)"
      by blast
    from t(2) obtain t0 ts where tag: "tag = t0 # ts" by (cases tag) auto
    with t have "t0 = c" "cs = ts @ post" "lowerChar t0 = lowerChar p"
      "map lowerChar ts = map lowerChar ps" by auto
    with 3 show "prefixCI (p # ps) (c # cs)" by auto
  qed
qed

lemma containsCI_iff:
  "containsCI p s \<longleftrightarrow>
     (\<exists>pre tag post. s = pre @ tag @ post \<and> map lowerChar tag = map lowerChar p)"
proof (induction s)
  case Nil
  show ?case by (auto simp: prefixCI_iff)
next
  case (Cons c cs)
  show ?case
  proof
    assume "containsCI p (c # cs)"
    then consider "prefixCI p (c # cs)" | "containsCI p cs" by auto
    then show "\<exists>pre tag post. c # cs = pre @ tag @ post \<and> map lowerChar tag = map lowerChar p"
    proof cases
      case 1
      then obtain tag post where "c # cs = [] @ tag @ post" "map lowerChar tag = map lowerChar p"
        by (auto simp: prefixCI_iff)
      then show ?thesis by blast
    next
      case 2
      with Cons obtain pre tag post where "cs = pre @ tag @ post"
        "map lowerChar tag = map lowerChar p" by blast
      then have "c # cs = (c # pre) @ tag @ post" by simp
      with \<open>map lowerChar tag = map lowerChar p\<close> show ?thesis by blast
    qed
  next
    assume "\<exists>pre tag post. c # cs = pre @ tag @ post \<and> map lowerChar tag = map lowerChar p"
    then obtain pre tag post where d: "c # cs = pre @ tag @ post"
      "map lowerChar tag = map lowerChar p" by blast
    show "containsCI p (c # cs)"
    proof (cases pre)
      case Nil
      with d have "prefixCI p (c # cs)" by (auto simp: prefixCI_iff)
      then show ?thesis by simp
    next
      case (Cons x xs)
      with d have "cs = xs @ tag @ post" by simp
      with d(2) Cons.IH have "containsCI p cs" by blast
      then show ?thesis by simp
    qed
  qed
qed

lemma lower_pattern: "map lowerChar ''<HideInStatus>'' = ''<hideinstatus>''"
  by code_simp

lemma hasHideInStatusTag_iff: "hasHideInStatusTag nt = containsCI ''<HideInStatus>'' nt"
  by (simp only: hasHideInStatusTag_def containsCI_iff lower_pattern)

lemma isStateHiddenInMenu_iff: "isStateHiddenInMenu (Some s) = hasHideInStatusTag (state_note s)"
  by (cases "state_note s") (simp_all add: isStateHiddenInMenu_def hasHideInStatusTag_iff)

lemma filterStates_Some:
  "filterStates (Some l) =
     filter (\<lambda>s. \<not> hasHideInStatusTag (state_note s)) (map the (filter (\<lambda>st. st \<noteq> None) l))"
proof -
  have "map the (filter (\<lambda>st. st \<noteq> None \<and> \<not> isStateHiddenInMenu st) l)
      = filter (\<lambda>s. \<not> hasHideInStatusTag (state_note s)) (map the (filter (\<lambda>st. st \<noteq> None) l))"
    by (induction l) (auto simp: isStateHiddenInMenu_iff)
  then show ?thesis by (simp add: filterStates_def)
qed

lemma filterStates_subseq: "subseq (map Some (filterStates (Some l))) l"
proof -
  have "map Some (map the (filter (\<lambda>st. st \<noteq> None \<and> \<not> isStateHiddenInMenu st) l))
      = filter (\<lambda>st. st \<noteq> None \<and> \<not> isStateHiddenInMenu st) l"
    by (induction l) auto
  then show ?thesis by (simp add: filterStates_def del: map_map)
qed

subsection \<open>Claims about \<open>Window_ActorInfo\<close>\<close>

text \<open>
  C6. For every description and every text-width measure, the wrapping of \<open>drawState\<close>
  splits the description at the single spaces (the words contain no space, and joined by
  single spaces they give the description back) and builds the lines greedily: its lines
  are the first three lines of the greedy wrapping, so there are at most three.
  \<open>drawState\<close>, called with a state and with an actor set, draws the icon and the name of
  the state and then exactly these lines of the description of the state, wrapped to the
  width of the cell less 40 pixels in the font of the description; for an empty
  description it draws no line.
\<close>

theorem wrapText_greedy_three_lines:
  "splitSpace description \<noteq> []
   \<and> joinWith '' '' (splitSpace description) = description
   \<and> (\<forall>wd\<in>set (splitSpace description). CHR '' '' \<notin> set wd)
   \<and> wrapText m maxWidth description
       = take 3 (greedyWrapSpec m maxWidth (splitSpace description) [])
   \<and> length (wrapText m maxWidth description) \<le> 3
   \<and> (actor w = Some a \<and> getStateDescription h s = description \<longrightarrow>
        (\<exists>w' nm. drawState h (Some s) x y wd w = Inr w'
           \<and> drawn (contents w') = drawn (contents w) @
               [DrawIcon (getStateIconIndex h s) x y,
                DrawText (if stateColumns w > 2 then 16 else 18) True 0 nm (x + 36) y (wd - 36) 18] @
               (if description = [] then []
                else lineTexts (if stateColumns w > 2 then 14 else 16) False
                       (take 3 (greedyWrapSpec
                          (measureTextWidth h (if stateColumns w > 2 then 14 else 16) False)
                          (wd - 40) (splitSpace description) [])) x y wd)))"
proof -
  have ne: "splitSpace description \<noteq> []" by (rule splitSpace_ne)
  have js: "joinWith '' '' (splitSpace description) = description" by (rule join_split)
  have sp: "\<forall>wd\<in>set (splitSpace description). CHR '' '' \<notin> set wd"
    using split_no_space [of _ description] by blast
  have gr: "wrapText m maxWidth description
       = take 3 (greedyWrapSpec m maxWidth (splitSpace description) [])"
    by (rule wrapText_eq)
  have le: "length (wrapText m maxWidth description) \<le> 3" by (rule wrapText_length)
  have dr: "actor w = Some a \<and> getStateDescription h s = description \<longrightarrow>
        (\<exists>w' nm. drawState h (Some s) x y wd w = Inr w'
           \<and> drawn (contents w') = drawn (contents w) @
               [DrawIcon (getStateIconIndex h s) x y,
                DrawText (if stateColumns w > 2 then 16 else 18) True 0 nm (x + 36) y (wd - 36) 18] @
               (if description = [] then []
                else lineTexts (if stateColumns w > 2 then 14 else 16) False
                       (take 3 (greedyWrapSpec
                          (measureTextWidth h (if stateColumns w > 2 then 14 else 16) False)
                          (wd - 40) (splitSpace description) [])) x y wd))"
  proof (intro impI, elim conjE)
    assume a: "actor w = Some a" and d: "getStateDescription h s = description"
    from drawState_drawn [OF a, of h s x y wd] show "\<exists>w' nm. drawState h (Some s) x y wd w = Inr w'
           \<and> drawn (contents w') = drawn (contents w) @
               [DrawIcon (getStateIconIndex h s) x y,
                DrawText (if stateColumns w > 2 then 16 else 18) True 0 nm (x + 36) y (wd - 36) 18] @
               (if description = [] then []
                else lineTexts (if stateColumns w > 2 then 14 else 16) False
                       (take 3 (greedyWrapSpec
                          (measureTextWidth h (if stateColumns w > 2 then 14 else 16) False)
                          (wd - 40) (splitSpace description) [])) x y wd)"
      unfolding d wrapText_eq .
  qed
  from ne js sp gr le dr show ?thesis by (intro conjI)
qed

theorem wrapText_greedy_three_lines_witness:
  "splitSpace ''aa bb cc dd ee ff gg hh''
     = [''aa'', ''bb'', ''cc'', ''dd'', ''ee'', ''ff'', ''gg'', ''hh'']
   \<and> CHR '' '' \<notin> set ''aa''
   \<and> wrapText (\<lambda>s. 8 * real (length s)) 40 ''aa bb cc dd ee ff gg hh''
       = [''aa bb'', ''cc dd'', ''ee ff'']
   \<and> wrapText (\<lambda>s. 8 * real (length s)) 40 ''abcdefgh ij'' = [[], ''abcdefgh'', ''ij'']
   \<and> actor (exWindow (Some (exActor None))) = Some (exActor None)
   \<and> getStateDescription exHost exDescState = ''aa bb cc dd ee ff gg hh''
   \<and> (\<exists>w' nm. drawState exHost (Some exDescState) 8 111 80 (exWindow (Some (exActor None)))
                  = Inr w'
          \<and> drawn (contents w') =
              [DrawIcon (Fin 1) 8 111,
               DrawText 18 True 0 nm 44 111 44 18,
               DrawText 16 False 0 ''aa bb'' 44 126 40 12,
               DrawText 16 False 0 ''cc dd'' 44 138 40 12,
               DrawText 16 False 0 ''ee ff'' 44 150 40 12])"
proof -
  let ?m = "\<lambda>s. 8 * real (length s)"
  let ?d = "''aa bb cc dd ee ff gg hh''"
  let ?w = "exWindow (Some (exActor None))"
  have sp: "splitSpace ?d = [''aa'', ''bb'', ''cc'', ''dd'', ''ee'', ''ff'', ''gg'', ''hh'']"
    by simp
  have sp': "splitSpace ''abcdefgh ij'' = [''abcdefgh'', ''ij'']"
    by simp
  from wrapText_greedy_three_lines [of ?d ?m 40]
  have mem: "\<forall>wd\<in>set (splitSpace ?d). CHR '' '' \<notin> set wd"
    and w1: "wrapText ?m 40 ?d = take 3 (greedyWrapSpec ?m 40 (splitSpace ?d) [])"
    by blast+
  from mem have m1: "CHR '' '' \<notin> set ''aa''" unfolding sp by simp
  from w1 have r1: "wrapText ?m 40 ?d = [''aa bb'', ''cc dd'', ''ee ff'']"
    unfolding sp by (simp add: Let_def)
  from wrapText_greedy_three_lines [of "''abcdefgh ij''" ?m 40]
  have "wrapText ?m 40 ''abcdefgh ij'' = take 3 (greedyWrapSpec ?m 40 (splitSpace ''abcdefgh ij'') [])"
    by blast
  then have r2: "wrapText ?m 40 ''abcdefgh ij'' = [[], ''abcdefgh'', ''ij'']"
    unfolding sp' by (simp add: Let_def)
  have a: "actor ?w = Some (exActor None)" by (simp add: exWindow_def)
  have d: "getStateDescription exHost exDescState = ?d" by code_simp
  have ic: "getStateIconIndex exHost exDescState = Fin 1" by code_simp
  have sc: "stateColumns ?w = 2" and d0: "drawn (contents ?w) = []"
    by (simp_all add: exWindow_def exBitmap_def)
  have ms: "measureTextWidth exHost 16 False = ?m"
    by (simp add: exHost_def)
  have lines: "take 3 (greedyWrapSpec ?m 40 (splitSpace ?d) []) = [''aa bb'', ''cc dd'', ''ee ff'']"
    unfolding sp by (simp add: Let_def)
  have upt: "[0..<3] = [0, 1, 2]" by (simp add: upt_rec)
  have lt: "lineTexts 16 False [''aa bb'', ''cc dd'', ''ee ff''] 8 111 80
      = [DrawText 16 False 0 ''aa bb'' 44 126 40 12,
         DrawText 16 False 0 ''cc dd'' 44 138 40 12,
         DrawText 16 False 0 ''ee ff'' 44 150 40 12]"
    by (simp add: lineTexts_def upt)
  from wrapText_greedy_three_lines [of ?d _ _ ?w "exActor None" exHost exDescState 8 111 80] a d
  have "\<exists>w' nm. drawState exHost (Some exDescState) 8 111 80 ?w = Inr w'
          \<and> drawn (contents w') =
              [DrawIcon (Fin 1) 8 111,
               DrawText 18 True 0 nm 44 111 44 18,
               DrawText 16 False 0 ''aa bb'' 44 126 40 12,
               DrawText 16 False 0 ''cc dd'' 44 138 40 12,
               DrawText 16 False 0 ''ee ff'' 44 150 40 12]"
    unfolding ic sc d0 by (simp add: ms lines lt)
  with sp m1 r1 r2 a d show ?thesis by (intro conjI)
qed

text \<open>
  C7. With \<open>n\<close> filtered states, \<open>drawStatesSection\<close> uses \<open>C\<close> columns, where \<open>C\<close> is 4 if
  \<open>n > 9\<close>, 3 if \<open>6 < n \<le> 9\<close> and 2 otherwise, and draws the \<open>i\<close>-th state in column
  \<open>i mod C\<close> and row \<open>i div C\<close>: its icon is at \<open>x = 8 + column * floor((contentsWidth - 16) / C)\<close>
  and \<open>y = 111 + row * 60\<close>. The icons of the states are the only icons drawn, in the
  order of the states.
\<close>

theorem drawStatesSection_grid:
  assumes "actor w = Some a" and "sts = filterStates (states a)" and "n = length sts"
    and "C = (if n > 9 then 4 else if n > 6 then 3 else 2)"
  shows "\<exists>w'. drawStatesSection h w = Inr w'
           \<and> icons w' = icons w @
               map (\<lambda>i. DrawIcon (getStateIconIndex h (sts ! i))
                          (8 + real (i mod C) * of_int \<lfloor>(contentsWidth w - 16) / real C\<rfloor>)
                          (111 + real (i div C) * 60)) [0..<n]
           \<and> (0 < n \<longrightarrow> stateColumns w' = C)"
  using assms by (rule drawStatesSection_icons)

theorem drawStatesSection_grid_witness:
  "actor (exWindow (Some (exActor (Some exSevenStates)))) = Some (exActor (Some exSevenStates))
   \<and> length (filterStates (states (exActor (Some exSevenStates)))) = 7
   \<and> (\<exists>w'. drawStatesSection exHost (exWindow (Some (exActor (Some exSevenStates)))) = Inr w'
          \<and> icons w' =
              [DrawIcon (Fin 1) 8 111, DrawIcon (Fin 2) 157 111, DrawIcon (Fin 3) 306 111,
               DrawIcon (Fin 4) 8 171, DrawIcon (Fin 5) 157 171, DrawIcon (Fin 6) 306 171,
               DrawIcon (Fin 7) 8 231]
          \<and> stateColumns w' = 3)"
proof -
  let ?a = "exActor (Some exSevenStates)"
  let ?w = "exWindow (Some ?a)"
  have h1: "actor ?w = Some ?a" by (simp add: exWindow_def)
  have sts: "filterStates (states ?a) = map (\<lambda>i. exState i []) [1, 2, 3, 4, 5, 6, 7]"
    by (simp add: filterStates_def exActor_def exSevenStates_def isStateHiddenInMenu_def
        exState_def)
  have n: "length (filterStates (states ?a)) = 7" by (simp add: sts)
  have ic: "getStateIconIndex exHost (exState i []) = Fin (of_int i)" for i
    by (simp add: getStateIconIndex_def exState_def)
  have cw: "contentsWidth ?w = 464"
    by (simp add: contentsWidth_def exWindow_def standardPadding_def)
  have i0: "icons ?w = []" by (simp add: icons_def exWindow_def exBitmap_def)
  have upt: "[0..<7] = [0, 1, 2, 3, 4, 5, 6]" by (simp add: upt_rec)
  from drawStatesSection_grid [OF h1 refl refl refl, of exHost]
  have "\<exists>w'. drawStatesSection exHost ?w = Inr w'
          \<and> icons w' =
              [DrawIcon (Fin 1) 8 111, DrawIcon (Fin 2) 157 111, DrawIcon (Fin 3) 306 111,
               DrawIcon (Fin 4) 8 171, DrawIcon (Fin 5) 157 171, DrawIcon (Fin 6) 306 171,
               DrawIcon (Fin 7) 8 231]
          \<and> stateColumns w' = 3"
    unfolding n cw i0 upt by (simp add: sts ic)
  with h1 n show ?thesis by (intro conjI)
qed

text \<open>
  C8. Absent data makes the drawing operations return at once, normally and with the
  window as it was: \<open>refresh\<close>, \<open>drawHeader\<close>, \<open>drawStatsSection\<close> and \<open>drawStatesSection\<close>
  when no actor is set, \<open>drawState\<close> when the state is null; \<open>filterStates\<close> returns the
  empty list for a null list of states.
\<close>

theorem absent_data_skips_drawing:
  "(actor w = None \<longrightarrow>
      refresh h w = Inr w \<and> drawHeader w = w \<and> drawStatsSection h w = w
      \<and> drawStatesSection h w = Inr w)
   \<and> drawState h None x y wd w = Inr w
   \<and> filterStates None = []"
  by (simp add: refresh_def drawHeader_def drawStatsSection_def drawStatesSection_def
      drawState_def filterStates_def)

theorem absent_data_skips_drawing_witness:
  "actor (exWindow None) = None
   \<and> refresh exHost (exWindow None) = Inr (exWindow None)
   \<and> drawHeader (exWindow None) = exWindow None
   \<and> drawStatsSection exHost (exWindow None) = exWindow None
   \<and> drawStatesSection exHost (exWindow None) = Inr (exWindow None)
   \<and> drawState exHost None 8 111 224 (exWindow None) = Inr (exWindow None)"
proof -
  have h: "actor (exWindow None) = None" by (simp add: exWindow_def)
  from absent_data_skips_drawing [of "exWindow None" exHost 8 111 224] h
  show ?thesis by simp
qed

text \<open>
  C10. \<open>filterStates\<close> returns the non-null states of its input whose note does not
  contain the tag \<open><HideInStatus>\<close> (case-insensitively), in the order of the input; every
  state it returns occurs in the input; the number of states it returns is what
  \<open>getFilteredStateCount\<close> reports, and \<open>refreshIfNeeded\<close> redraws exactly when that number
  differs from the number it stored last.
\<close>

theorem filterStates_sublist:
  "filterStates (Some l) =
     filter (\<lambda>s. \<not> hasHideInStatusTag (state_note s)) (map the (filter (\<lambda>st. st \<noteq> None) l))
   \<and> subseq (map Some (filterStates (Some l))) l
   \<and> (\<forall>s\<in>set (filterStates (Some l)). Some s \<in> set l)
   \<and> getFilteredStateCount (Some a) = length (filterStates (states a))
   \<and> (actor w = Some a \<longrightarrow>
        refreshIfNeeded h w =
          (if int (length (filterStates (states a))) = lastStateCount w then Inr w
           else refresh h (w\<lparr>lastStateCount := int (length (filterStates (states a)))\<rparr>)))"
proof -
  have mem: "\<forall>s\<in>set (filterStates (Some l)). Some s \<in> set l"
    by (auto simp: filterStates_def)
  have cnt: "getFilteredStateCount (Some a) = length (filterStates (states a))"
    by (simp add: getFilteredStateCount_def)
  have dec: "actor w = Some a \<longrightarrow>
        refreshIfNeeded h w =
          (if int (length (filterStates (states a))) = lastStateCount w then Inr w
           else refresh h (w\<lparr>lastStateCount := int (length (filterStates (states a)))\<rparr>))"
    by (simp add: refreshIfNeeded_def getFilteredStateCount_def Let_def)
  from filterStates_Some [of l] filterStates_subseq [of l] mem cnt dec show ?thesis
    by (intro conjI)
qed

theorem filterStates_sublist_witness:
  "filterStates (Some exStates) = [exState 1 [], exState 3 ''<Desc:hi>'']
   \<and> Some (exState 1 []) \<in> set exStates
   \<and> Some (exState 3 ''<Desc:hi>'') \<in> set exStates
   \<and> actor (exWindow (Some (exActor (Some exStates)))) = Some (exActor (Some exStates))
   \<and> getFilteredStateCount (Some (exActor (Some exStates))) = 2
   \<and> refreshIfNeeded exHost (exWindow (Some (exActor (Some exStates))))
       = refresh exHost ((exWindow (Some (exActor (Some exStates))))\<lparr>lastStateCount := 2\<rparr>)"
proof -
  let ?a = "exActor (Some exStates)"
  let ?w = "exWindow (Some ?a)"
  have h: "actor ?w = Some ?a" by (simp add: exWindow_def)
  have st: "states ?a = Some exStates" by (simp add: exActor_def)
  have l0: "lastStateCount ?w = 0" by (simp add: exWindow_def)
  have t1: "\<not> hasHideInStatusTag []" "hasHideInStatusTag ''x <hideINstatus> y''"
    "\<not> hasHideInStatusTag ''<Desc:hi>''"
    unfolding hasHideInStatusTag_iff by code_simp+
  note inst = filterStates_sublist [of exStates ?a ?w exHost]
  from inst have "filterStates (Some exStates) =
     filter (\<lambda>s. \<not> hasHideInStatusTag (state_note s))
       (map the (filter (\<lambda>st. st \<noteq> None) exStates))"
    by blast
  then have f: "filterStates (Some exStates) = [exState 1 [], exState 3 ''<Desc:hi>'']"
    by (simp add: exStates_def exState_def t1)
  from inst have "\<forall>s\<in>set (filterStates (Some exStates)). Some s \<in> set exStates" by blast
  then have m: "Some (exState 1 []) \<in> set exStates" "Some (exState 3 ''<Desc:hi>'') \<in> set exStates"
    unfolding f by simp_all
  from inst have "getFilteredStateCount (Some ?a) = length (filterStates (states ?a))" by blast
  then have c: "getFilteredStateCount (Some ?a) = 2" unfolding st f by simp
  from inst h have "refreshIfNeeded exHost ?w =
          (if int (length (filterStates (states ?a))) = lastStateCount ?w then Inr ?w
           else refresh exHost (?w\<lparr>lastStateCount := int (length (filterStates (states ?a)))\<rparr>))"
    by blast
  then have r: "refreshIfNeeded exHost ?w = refresh exHost (?w\<lparr>lastStateCount := 2\<rparr>)"
    unfolding st f l0 by simp
  from f m h c r show ?thesis by (intro conjI)
qed

end
